theory Spec2Isabelle
  imports Complex_Main "HOL-Library.Sublist" "HOL-Library.AList"
begin

section \<open>Values shared by the ledger and the reconciliation engine\<close>

text \<open>
  A UUID is represented by its canonical text form, so Python's \<open>str(uuid)\<close> is the
  identity. A \<open>Decimal\<close> is an exact rational (\<open>rat\<close>); a Python \<open>float\<close> is a
  \<open>real\<close>. The two are kept apart because Python keeps them apart: comparison between a
  \<open>Decimal\<close> and a \<open>float\<close> is defined (and exact), arithmetic between them raises
  \<open>TypeError\<close>. A metadata bag (\<open>Dict[str, Any]\<close>) is an association list in
  insertion order.
\<close>

type_synonym uuid = string

datatype pyval = PNone | PStr string | PFloat real | PInt int | PBool bool

type_synonym metadata = "(string \<times> pyval) list"

datatype exn =
    DatabaseError string
  | AttributeError string
  | TypeError string
  | ValueError string
  | KeyError string
  | ZeroDivisionError string

fun str_exn :: "exn \<Rightarrow> string" where
  "str_exn (DatabaseError m) = m"
| "str_exn (AttributeError m) = m"
| "str_exn (TypeError m) = m"
| "str_exn (ValueError m) = m"
| "str_exn (KeyError m) = m"
| "str_exn (ZeroDivisionError m) = m"

text \<open>
  Functions of the Python standard library whose results only appear inside message
  strings or similarity scores: the text of a float, of a Decimal, of an int, of a
  datetime, the \<open>:.3f\<close> format and \<open>difflib.SequenceMatcher(None, a, b).ratio()\<close>.
\<close>

record pylib =
  str_float :: "real \<Rightarrow> string"
  str_decimal :: "rat \<Rightarrow> string"
  str_int :: "int \<Rightarrow> string"
  format_3f :: "real \<Rightarrow> string"
  isoformat :: "int \<Rightarrow> string"
  ratio :: "string \<Rightarrow> string \<Rightarrow> real"

section \<open>Ledger: data model\<close>

record account_create =
  ac_currency :: string
  ac_type :: string
  ac_metadata :: metadata

record account =
  acc_id :: uuid
  acc_currency :: string
  acc_type :: string
  acc_metadata :: metadata

record balance =
  bal_account_id :: uuid
  bal_currency :: string
  available_balance :: rat
  pending_balance :: rat
  version :: int

datatype event_type = DEBIT | CREDIT | TRANSFER

datatype event_status = PENDING | SETTLED | FAILED

record ledger_event =
  ev_id :: uuid
  ev_source_account_id :: "uuid option"
  ev_destination_account_id :: "uuid option"
  ev_amount :: rat
  ev_currency :: string
  ev_event_type :: event_type
  ev_transaction_id :: uuid
  ev_metadata :: metadata
  ev_status :: event_status

record transfer_request =
  tr_source_account_id :: uuid
  tr_destination_account_id :: uuid
  tr_amount :: rat
  tr_currency :: string
  tr_metadata :: metadata

record settings =
  allow_overdraft :: bool
  max_transaction_amount :: real

text \<open>
  The three tables the ledger writes. The columns filled by the server clock
  (\<open>timestamp\<close>, \<open>created_at\<close>, \<open>last_updated\<close>, \<open>updated_at\<close>) are read by no
  operation of the transfer path and are left out.
\<close>

record db =
  accounts :: "uuid \<rightharpoonup> account"
  balances :: "uuid \<rightharpoonup> balance"
  ledger_events :: "ledger_event list"

definition empty_db :: db where
  "empty_db = \<lparr>accounts = Map.empty, balances = Map.empty, ledger_events = []\<rparr>"

text \<open>
  Every storage statement may raise. A fault plan tells, for each statement of one
  service call, whether it raises and with which message. The statements of the
  reconciliation journal are the job upsert, the job update (by the status it writes) and
  the insert of a log row (by the position of the external transaction in the run and by
  whether it is the insert of the exception handler).
\<close>

datatype stmt =
    InsertAccount
  | SelectAccountExists uuid
  | SelectAccount uuid
  | SelectBalance uuid
  | InsertEvent event_type
  | UpsertBalance uuid
  | Commit
  | UpsertReconJob
  | UpdateReconJob string
  | InsertReconLog nat bool

type_synonym faults = "stmt \<Rightarrow> string option"

definition no_faults :: faults where
  "no_faults = (\<lambda>s. None)"

section \<open>Ledger: storage substrate\<close>

text \<open>
  \<open>DatabaseManager.get_transaction\<close>: the body runs on the connection; leaving the
  \<open>async with\<close> block normally (also by \<open>return\<close>) commits, leaving it by an exception
  rolls back and re-raises.
\<close>

definition get_transaction ::
  "faults \<Rightarrow> db \<Rightarrow> (db \<Rightarrow> exn + ('a \<times> db)) \<Rightarrow> (exn + 'a) \<times> db" where
  "get_transaction fails d body =
     (case body d of
        Inl e \<Rightarrow> (Inl e, d)
      | Inr (r, d') \<Rightarrow>
          (case fails Commit of
             Some m \<Rightarrow> (Inl (DatabaseError m), d)
           | None \<Rightarrow> (Inr r, d')))"

text \<open>
  \<open>AccountRepository\<close>. Each method acquires its own connection, outside any
  transaction, so its statement takes effect at once. The id of the new row is generated
  by the server (\<open>new_id\<close>); a duplicate primary key is a storage error.
\<close>

definition AccountRepository_create ::
  "faults \<Rightarrow> uuid \<Rightarrow> db \<Rightarrow> account_create \<Rightarrow> (exn + account) \<times> db" where
  "AccountRepository_create fails new_id d account_data =
     (case fails InsertAccount of
        Some m \<Rightarrow> (Inl (DatabaseError m), d)
      | None \<Rightarrow>
          if accounts d new_id \<noteq> None
          then (Inl (DatabaseError ''duplicate key value violates unique constraint''), d)
          else
            let row = \<lparr>acc_id = new_id, acc_currency = ac_currency account_data,
                       acc_type = ac_type account_data,
                       acc_metadata = ac_metadata account_data\<rparr>
            in (Inr row, d\<lparr>accounts := (accounts d)(new_id \<mapsto> row)\<rparr>))"

definition AccountRepository_get_by_id ::
  "faults \<Rightarrow> db \<Rightarrow> uuid \<Rightarrow> exn + account option" where
  "AccountRepository_get_by_id fails d account_id =
     (case fails (SelectAccount account_id) of
        Some m \<Rightarrow> Inl (DatabaseError m)
      | None \<Rightarrow> Inr (accounts d account_id))"

definition AccountRepository_exists :: "faults \<Rightarrow> db \<Rightarrow> uuid \<Rightarrow> exn + bool" where
  "AccountRepository_exists fails d account_id =
     (case fails (SelectAccountExists account_id) of
        Some m \<Rightarrow> Inl (DatabaseError m)
      | None \<Rightarrow> Inr (accounts d account_id \<noteq> None))"

text \<open>
  \<open>BalanceRepository.upsert_balance\<close>: \<open>INSERT ... ON CONFLICT (account_id) DO UPDATE\<close>.
  A new row takes the deltas as its balances; an existing row adds them and increments
  its version, and keeps its currency.

  Modelled from the spec: the table definition is not part of the sources; the default of
  the \<open>version\<close> column is taken from the data model (a Balance is created with
  \<open>version = 0\<close>).
\<close>

definition upsert_row :: "balance option \<Rightarrow> uuid \<Rightarrow> string \<Rightarrow> rat \<Rightarrow> rat \<Rightarrow> balance" where
  "upsert_row existing account_id currency available_delta pending_delta =
     (case existing of
        None \<Rightarrow>
          \<lparr>bal_account_id = account_id, bal_currency = currency,
           available_balance = available_delta, pending_balance = pending_delta,
           version = 0\<rparr>
      | Some b \<Rightarrow>
          b\<lparr>available_balance := available_balance b + available_delta,
            pending_balance := pending_balance b + pending_delta,
            version := version b + 1\<rparr>)"

definition upsert_balance ::
  "faults \<Rightarrow> db \<Rightarrow> uuid \<Rightarrow> string \<Rightarrow> rat \<Rightarrow> rat \<Rightarrow> exn + (balance \<times> db)" where
  "upsert_balance fails d account_id currency available_delta pending_delta =
     (case fails (UpsertBalance account_id) of
        Some m \<Rightarrow> Inl (DatabaseError m)
      | None \<Rightarrow>
          let row = upsert_row (balances d account_id) account_id currency
                      available_delta pending_delta
          in Inr (row, d\<lparr>balances := (balances d)(account_id \<mapsto> row)\<rparr>))"

definition check_sufficient_funds :: "faults \<Rightarrow> db \<Rightarrow> uuid \<Rightarrow> rat \<Rightarrow> exn + bool" where
  "check_sufficient_funds fails d account_id amount =
     (case fails (SelectBalance account_id) of
        Some m \<Rightarrow> Inl (DatabaseError m)
      | None \<Rightarrow>
          (case balances d account_id of
             None \<Rightarrow> Inr False
           | Some row \<Rightarrow> Inr (available_balance row \<ge> amount)))"

text \<open>
  \<open>EventRepository.create_event\<close>: one \<open>INSERT\<close> into \<open>ledger_events\<close>, returning the
  stored row. The row id is generated by the server (\<open>new_id\<close>).
\<close>

definition create_event ::
  "faults \<Rightarrow> uuid \<Rightarrow> db \<Rightarrow> ledger_event \<Rightarrow> exn + (ledger_event \<times> db)" where
  "create_event fails new_id d event_data =
     (case fails (InsertEvent (ev_event_type event_data)) of
        Some m \<Rightarrow> Inl (DatabaseError m)
      | None \<Rightarrow>
          if new_id \<in> ev_id ` set (ledger_events d)
          then Inl (DatabaseError ''duplicate key value violates unique constraint'')
          else
            let row = event_data\<lparr>ev_id := new_id\<rparr>
            in Inr (row, d\<lparr>ledger_events := ledger_events d @ [row]\<rparr>))"

section \<open>Ledger: services\<close>

subsection \<open>CommandProcessor\<close>

record validation =
  valid :: bool
  errors :: "string list"

definition validate_transfer ::
  "pylib \<Rightarrow> settings \<Rightarrow> faults \<Rightarrow> db \<Rightarrow> transfer_request \<Rightarrow> exn + validation" where
  "validate_transfer py st fails d transfer =
     (let errors1 =
            (if tr_amount transfer \<le> 0 then [''Amount must be positive''] else []);
          errors2 = errors1 @
            (if of_rat (tr_amount transfer) > max_transaction_amount st
             then [''Amount exceeds maximum limit of '' @
                     str_float py (max_transaction_amount st)]
             else []);
          errors3 = errors2 @
            (if tr_source_account_id transfer = tr_destination_account_id transfer
             then [''Source and destination accounts must be different'']
             else [])
      in
      case AccountRepository_exists fails d (tr_source_account_id transfer) of
        Inl e \<Rightarrow> Inl e
      | Inr source_exists \<Rightarrow>
      let errors4 = errors3 @
            (if \<not> source_exists then [''Source account does not exist''] else [])
      in
      case AccountRepository_exists fails d (tr_destination_account_id transfer) of
        Inl e \<Rightarrow> Inl e
      | Inr dest_exists \<Rightarrow>
      let errors5 = errors4 @
            (if \<not> dest_exists then [''Destination account does not exist''] else [])
      in
      if source_exists \<and> dest_exists then
        case AccountRepository_get_by_id fails d (tr_source_account_id transfer) of
          Inl e \<Rightarrow> Inl e
        | Inr source_account \<Rightarrow>
        case AccountRepository_get_by_id fails d (tr_destination_account_id transfer) of
          Inl e \<Rightarrow> Inl e
        | Inr dest_account \<Rightarrow>
        (case source_account of
           None \<Rightarrow> Inl (AttributeError ''NoneType object has no attribute currency'')
         | Some sa \<Rightarrow>
        (case dest_account of
           None \<Rightarrow> Inl (AttributeError ''NoneType object has no attribute currency'')
         | Some da \<Rightarrow>
             let errors6 = errors5 @
                   (if acc_currency sa \<noteq> tr_currency transfer
                    then [''Transfer currency doesn't match source account currency'']
                    else []);
                 errors7 = errors6 @
                   (if acc_currency da \<noteq> tr_currency transfer
                    then [''Transfer currency doesn't match destination account currency'']
                    else [])
             in Inr \<lparr>valid = (length errors7 = 0), errors = errors7\<rparr>))
      else Inr \<lparr>valid = (length errors5 = 0), errors = errors5\<rparr>)"

definition validate_sufficient_funds ::
  "settings \<Rightarrow> faults \<Rightarrow> db \<Rightarrow> uuid \<Rightarrow> rat \<Rightarrow> exn + bool" where
  "validate_sufficient_funds st fails d account_id amount =
     (if allow_overdraft st then Inr True
      else check_sufficient_funds fails d account_id amount)"

subsection \<open>EventStore\<close>

text \<open>
  \<open>create_transfer_events\<close>: \<open>transaction_id\<close> is the result of \<open>uuid4()\<close>; the debit
  row is inserted first, then the credit row.
\<close>

definition create_transfer_events ::
  "faults \<Rightarrow> uuid \<Rightarrow> uuid \<Rightarrow> uuid \<Rightarrow> db \<Rightarrow> uuid \<Rightarrow> uuid \<Rightarrow> rat \<Rightarrow> string \<Rightarrow> metadata
     \<Rightarrow> exn + (ledger_event list \<times> db)" where
  "create_transfer_events fails transaction_id debit_id credit_id d
       source_account_id destination_account_id amount currency md =
     (case create_event fails debit_id d
             \<lparr>ev_id = [], ev_source_account_id = Some source_account_id,
              ev_destination_account_id = None, ev_amount = amount,
              ev_currency = currency, ev_event_type = DEBIT,
              ev_transaction_id = transaction_id, ev_metadata = md,
              ev_status = SETTLED\<rparr> of
        Inl e \<Rightarrow> Inl e
      | Inr (debit_event, d1) \<Rightarrow>
      (case create_event fails credit_id d1
             \<lparr>ev_id = [], ev_source_account_id = None,
              ev_destination_account_id = Some destination_account_id,
              ev_amount = amount, ev_currency = currency, ev_event_type = CREDIT,
              ev_transaction_id = transaction_id, ev_metadata = md,
              ev_status = SETTLED\<rparr> of
        Inl e \<Rightarrow> Inl e
      | Inr (credit_event, d2) \<Rightarrow> Inr ([debit_event, credit_event], d2)))"

subsection \<open>ProjectionEngine\<close>

text \<open>
  \<open>balance_updates\<close> is a dict from account id to currency, available delta and pending
  delta; a Python dict iterates in insertion order, and assigning to a key that is present
  keeps its place.
\<close>

type_synonym balance_update = "string \<times> rat \<times> rat"

definition add_available ::
  "(uuid \<times> balance_update) list \<Rightarrow> uuid \<Rightarrow> string \<Rightarrow> rat \<Rightarrow> (uuid \<times> balance_update) list" where
  "add_available balance_updates account_id currency delta =
     (case map_of balance_updates account_id of
        None \<Rightarrow> AList.update account_id (currency, 0 + delta, 0) balance_updates
      | Some (c, av, pe) \<Rightarrow> AList.update account_id (c, av + delta, pe) balance_updates)"

fun collect_updates ::
  "(uuid \<times> balance_update) list \<Rightarrow> ledger_event list \<Rightarrow> (uuid \<times> balance_update) list" where
  "collect_updates balance_updates [] = balance_updates"
| "collect_updates balance_updates (event # events) =
     collect_updates
       (case (ev_event_type event, ev_source_account_id event,
              ev_destination_account_id event) of
          (DEBIT, Some account_id, _) \<Rightarrow>
            add_available balance_updates account_id (ev_currency event) (- ev_amount event)
        | (DEBIT, None, _) \<Rightarrow> balance_updates
        | (CREDIT, _, Some account_id) \<Rightarrow>
            add_available balance_updates account_id (ev_currency event) (ev_amount event)
        | (CREDIT, _, None) \<Rightarrow> balance_updates
        | (TRANSFER, _, _) \<Rightarrow> balance_updates)
       events"

fun apply_updates ::
  "faults \<Rightarrow> db \<Rightarrow> (uuid \<times> balance_update) list \<Rightarrow> exn + (balance list \<times> db)" where
  "apply_updates fails d [] = Inr ([], d)"
| "apply_updates fails d ((account_id, (currency, available_delta, pending_delta)) # rest) =
     (case upsert_balance fails d account_id currency available_delta pending_delta of
        Inl e \<Rightarrow> Inl e
      | Inr (b, d') \<Rightarrow>
          (case apply_updates fails d' rest of
             Inl e \<Rightarrow> Inl e
           | Inr (bs, d'') \<Rightarrow> Inr (b # bs, d'')))"

definition project_events_to_balances ::
  "faults \<Rightarrow> db \<Rightarrow> ledger_event list \<Rightarrow> exn + (balance list \<times> db)" where
  "project_events_to_balances fails d events =
     apply_updates fails d (collect_updates [] events)"

subsection \<open>LedgerService\<close>

datatype transfer_result =
    Failure "string list"
  | Success uuid "ledger_event list" "balance list"

text \<open>
  \<open>create_account\<close>: the account row is inserted by \<open>AccountRepository.create\<close> on its
  own connection; the balance row is then upserted in a transaction of its own.
\<close>

definition create_account ::
  "faults \<Rightarrow> uuid \<Rightarrow> db \<Rightarrow> account_create \<Rightarrow> (exn + account) \<times> db" where
  "create_account fails new_id d account_data =
     (case AccountRepository_create fails new_id d account_data of
        (Inl e, d1) \<Rightarrow> (Inl e, d1)
      | (Inr account, d1) \<Rightarrow>
          (case get_transaction fails d1
                  (\<lambda>conn.
                     case upsert_balance fails conn (acc_id account) (acc_currency account) 0 0 of
                       Inl e \<Rightarrow> Inl e
                     | Inr (b, conn') \<Rightarrow> Inr ((), conn')) of
             (Inl e, d2) \<Rightarrow> (Inl e, d2)
           | (Inr u, d2) \<Rightarrow> (Inr account, d2)))"

definition transfer_funds ::
  "pylib \<Rightarrow> settings \<Rightarrow> faults \<Rightarrow> uuid \<Rightarrow> uuid \<Rightarrow> uuid \<Rightarrow> db \<Rightarrow> transfer_request
     \<Rightarrow> (exn + transfer_result) \<times> db" where
  "transfer_funds py st fails transaction_id debit_id credit_id d transfer =
     (case validate_transfer py st fails d transfer of
        Inl e \<Rightarrow> (Inl e, d)
      | Inr validation \<Rightarrow>
          if \<not> valid validation then (Inr (Failure (errors validation)), d)
          else
            get_transaction fails d
              (\<lambda>conn.
                 case validate_sufficient_funds st fails conn
                        (tr_source_account_id transfer) (tr_amount transfer) of
                   Inl e \<Rightarrow> Inl e
                 | Inr has_funds \<Rightarrow>
                     if \<not> has_funds then Inr (Failure [''Insufficient funds''], conn)
                     else
                       (case create_transfer_events fails transaction_id debit_id credit_id conn
                               (tr_source_account_id transfer)
                               (tr_destination_account_id transfer)
                               (tr_amount transfer) (tr_currency transfer)
                               (tr_metadata transfer) of
                          Inl e \<Rightarrow> Inl e
                        | Inr (events, conn1) \<Rightarrow>
                            (case project_events_to_balances fails conn1 events of
                               Inl e \<Rightarrow> Inl e
                             | Inr (bals, conn2) \<Rightarrow>
                                 Inr (Success (ev_transaction_id (hd events)) events bals,
                                      conn2)))))"

subsection \<open>Sequences of ledger operations\<close>

text \<open>
  The two operations that write to the ledger, each with the fault plan of its storage
  statements and the identifiers generated during the call (the account id by the
  server, the transaction id by \<open>uuid4()\<close>, the two event ids by the server). The
  settings are process-wide and fixed.
\<close>

datatype op =
    CreateAccount faults uuid account_create
  | TransferFunds faults uuid uuid uuid transfer_request

fun run_op :: "pylib \<Rightarrow> settings \<Rightarrow> db \<Rightarrow> op \<Rightarrow> db" where
  "run_op py st d (CreateAccount fails new_id account_data) =
     snd (create_account fails new_id d account_data)"
| "run_op py st d (TransferFunds fails transaction_id debit_id credit_id transfer) =
     snd (transfer_funds py st fails transaction_id debit_id credit_id d transfer)"

definition run_ops :: "pylib \<Rightarrow> settings \<Rightarrow> op list \<Rightarrow> db" where
  "run_ops py st ops = foldl (run_op py st) empty_db ops"

subsection \<open>Sums over the event log\<close>

definition settled_credits :: "ledger_event list \<Rightarrow> uuid \<Rightarrow> rat" where
  "settled_credits evs a =
     sum_list (map ev_amount
       (filter (\<lambda>e. ev_status e = SETTLED \<and> ev_event_type e = CREDIT
                    \<and> ev_destination_account_id e = Some a) evs))"

definition settled_debits :: "ledger_event list \<Rightarrow> uuid \<Rightarrow> rat" where
  "settled_debits evs a =
     sum_list (map ev_amount
       (filter (\<lambda>e. ev_status e = SETTLED \<and> ev_event_type e = DEBIT
                    \<and> ev_source_account_id e = Some a) evs))"

definition touches :: "ledger_event \<Rightarrow> uuid \<Rightarrow> bool" where
  "touches e a = (ev_source_account_id e = Some a \<or> ev_destination_account_id e = Some a)"

definition txn_amount :: "ledger_event list \<Rightarrow> event_type \<Rightarrow> uuid \<Rightarrow> string \<Rightarrow> rat" where
  "txn_amount evs ty transaction_id currency =
     sum_list (map ev_amount
       (filter (\<lambda>e. ev_event_type e = ty \<and> ev_transaction_id e = transaction_id
                    \<and> ev_currency e = currency) evs))"

text \<open>The two rows that \<open>create_transfer_events\<close> writes for a request.\<close>

definition debit_row :: "uuid \<Rightarrow> uuid \<Rightarrow> transfer_request \<Rightarrow> ledger_event" where
  "debit_row transaction_id debit_id t =
     \<lparr>ev_id = debit_id, ev_source_account_id = Some (tr_source_account_id t),
      ev_destination_account_id = None, ev_amount = tr_amount t,
      ev_currency = tr_currency t, ev_event_type = DEBIT,
      ev_transaction_id = transaction_id, ev_metadata = tr_metadata t,
      ev_status = SETTLED\<rparr>"

definition credit_row :: "uuid \<Rightarrow> uuid \<Rightarrow> transfer_request \<Rightarrow> ledger_event" where
  "credit_row transaction_id credit_id t =
     \<lparr>ev_id = credit_id, ev_source_account_id = None,
      ev_destination_account_id = Some (tr_destination_account_id t),
      ev_amount = tr_amount t, ev_currency = tr_currency t, ev_event_type = CREDIT,
      ev_transaction_id = transaction_id, ev_metadata = tr_metadata t,
      ev_status = SETTLED\<rparr>"

subsection \<open>Text\<close>

text \<open>
  \<open>str.lower()\<close> on ASCII text, and Python's \<open>sub in s\<close> (the library's
  \<open>sublist\<close>).
\<close>

definition lower_char :: "char \<Rightarrow> char" where
  "lower_char c =
     (if 65 \<le> (of_char c :: nat) \<and> (of_char c :: nat) \<le> 90
      then char_of ((of_char c :: nat) + 32) else c)"

definition py_lower :: "string \<Rightarrow> string" where
  "py_lower s = map lower_char s"

text \<open>
  Conservation: for every transaction id and currency the CREDIT amounts and the DEBIT
  amounts of the event log have the same sum.
\<close>

definition conserved :: "ledger_event list \<Rightarrow> bool" where
  "conserved evs =
     (\<forall>transaction_id currency.
        txn_amount evs CREDIT transaction_id currency
          = txn_amount evs DEBIT transaction_id currency)"

subsection \<open>The invariant of the ledger tables\<close>

text \<open>
  Every balance row is the projection of the event log, belongs to an account of the same
  currency and has no pending amount; an account without a balance row occurs in no
  event; every event is in the currency of the accounts it names.
\<close>

definition ledger_inv :: "db \<Rightarrow> bool" where
  "ledger_inv d =
     ((\<forall>a b. balances d a = Some b \<longrightarrow>
          available_balance b = settled_credits (ledger_events d) a
                                - settled_debits (ledger_events d) a
        \<and> pending_balance b = 0
        \<and> (\<exists>acc. accounts d a = Some acc \<and> acc_currency acc = bal_currency b))
    \<and> (\<forall>a. balances d a = None \<longrightarrow> (\<forall>e \<in> set (ledger_events d). \<not> touches e a))
    \<and> (\<forall>e \<in> set (ledger_events d). \<forall>a. touches e a \<longrightarrow>
          (\<exists>acc. accounts d a = Some acc \<and> acc_currency acc = ev_currency e)))"

subsection \<open>Example inputs\<close>

text \<open>
  Concrete inputs on which the theorems below are instantiated. \<open>scenario_S1\<close> is the
  ledger scenario of three accounts and three transfers, run with overdraft allowed.
\<close>

definition example_py :: pylib where
  "example_py = \<lparr>str_float = (\<lambda>x. ''1000000.0''), str_decimal = (\<lambda>x. ''100.00''),
                 str_int = (\<lambda>x. ''0''),
                 format_3f = (\<lambda>x. ''0.000''), isoformat = (\<lambda>x. ''2025-07-13T10:00:00''),
                 ratio = (\<lambda>a b. 0)\<rparr>"

definition example_settings :: settings where
  "example_settings = \<lparr>allow_overdraft = False, max_transaction_amount = 1000000\<rparr>"

definition example_overdraft :: settings where
  "example_overdraft = \<lparr>allow_overdraft = True, max_transaction_amount = 1000000\<rparr>"

definition usd_account :: account_create where
  "usd_account = \<lparr>ac_currency = ''USD'', ac_type = ''user'', ac_metadata = []\<rparr>"

definition example_transfer :: "uuid \<Rightarrow> uuid \<Rightarrow> rat \<Rightarrow> transfer_request" where
  "example_transfer src dst amt =
     \<lparr>tr_source_account_id = src, tr_destination_account_id = dst, tr_amount = amt,
      tr_currency = ''USD'', tr_metadata = []\<rparr>"


definition fail_at :: "stmt \<Rightarrow> faults" where
  "fail_at s = (\<lambda>x. if x = s then Some ''connection lost'' else None)"

definition example_db :: db where
  "example_db = run_ops example_py example_overdraft
                  [CreateAccount no_faults ''alice'' usd_account,
                   CreateAccount no_faults ''float'' usd_account]"


section \<open>Reconciliation: data model\<close>

text \<open>
  A \<open>datetime\<close> is an instant in microseconds on one time scale (the resolution of
  \<open>datetime\<close> and \<open>timedelta\<close>), so the difference of two is an exact
  \<open>timedelta\<close>; \<open>total_seconds()\<close> is that difference divided by \<open>10^6\<close>.
\<close>

type_synonym datetime = int

record ExternalTxn =
  ext_txn_id :: string
  ext_amount :: rat
  ext_currency :: string
  ext_timestamp :: datetime
  ext_description :: "string option"
  ext_metadata :: metadata

record LedgerTxn =
  lt_id :: uuid
  lt_transaction_id :: uuid
  lt_amount :: rat
  lt_currency :: string
  lt_timestamp :: datetime
  lt_event_type :: string
  lt_source_account_id :: "uuid option"
  lt_destination_account_id :: "uuid option"
  lt_metadata :: metadata

record MatchResult =
  matched :: bool
  match_score :: real
  mismatch_reason :: "string option"
  ledger_txn_id :: "uuid option"
  external_txn_id :: string
  amount_diff :: rat
  timestamp_diff_seconds :: int
  mr_metadata :: metadata

record recon_settings =
  amount_tolerance_percent :: real
  timestamp_tolerance_seconds :: int
  fuzzy_weights :: "(string \<times> real) list"
  min_match_score :: real

definition default_recon_settings :: recon_settings where
  "default_recon_settings =
     \<lparr>amount_tolerance_percent = 1 / 10, timestamp_tolerance_seconds = 300,
      fuzzy_weights = [(''amount'', 4 / 10), (''timestamp'', 3 / 10), (''metadata'', 3 / 10)],
      min_match_score = 8 / 10\<rparr>"

section \<open>Reconciliation: matchers\<close>

subsection \<open>BaseMatcher\<close>

text \<open>\<open>int(x)\<close> on a float truncates toward zero.\<close>

definition total_seconds_int :: "int \<Rightarrow> int" where
  "total_seconds_int delta = sgn delta * (\<bar>delta\<bar> div 1000000)"

definition opt_str :: "string option \<Rightarrow> pyval" where
  "opt_str v = (case v of None \<Rightarrow> PNone | Some s \<Rightarrow> PStr s)"

text \<open>
  \<open>_create_match_result\<close>; \<open>cls\<close> is \<open>self.__class__.__name__\<close>. A model object
  is truthy, so \<open>if ledger_txn\<close> tests for \<open>None\<close>.
\<close>

definition create_match_result ::
  "string \<Rightarrow> ExternalTxn \<Rightarrow> LedgerTxn option \<Rightarrow> bool \<Rightarrow> real \<Rightarrow> string option \<Rightarrow> MatchResult" where
  "create_match_result cls external_txn ledger_txn is_matched score reason =
     \<lparr>matched = is_matched, match_score = score, mismatch_reason = reason,
      ledger_txn_id = map_option lt_id ledger_txn,
      external_txn_id = ext_txn_id external_txn,
      amount_diff =
        (case ledger_txn of None \<Rightarrow> 0
         | Some l \<Rightarrow> ext_amount external_txn - lt_amount l),
      timestamp_diff_seconds =
        (case ledger_txn of None \<Rightarrow> 0
         | Some l \<Rightarrow> total_seconds_int (ext_timestamp external_txn - lt_timestamp l)),
      mr_metadata =
        [(''external_description'', opt_str (ext_description external_txn)),
         (''ledger_event_type'',
            (case ledger_txn of None \<Rightarrow> PNone | Some l \<Rightarrow> PStr (lt_event_type l))),
         (''match_criteria'', PStr cls)]\<rparr>"

subsection \<open>ExactMatcher\<close>

definition id_cross_reference :: "ExternalTxn \<Rightarrow> LedgerTxn \<Rightarrow> bool" where
  "id_cross_reference external_txn ledger_txn =
     ((case map_of (lt_metadata ledger_txn) ''external_txn_id'' of
         None \<Rightarrow> False
       | Some v \<Rightarrow> v = PStr (ext_txn_id external_txn))
      \<or> (case map_of (ext_metadata external_txn) ''ledger_txn_id'' of
            None \<Rightarrow> False
          | Some v \<Rightarrow> PStr (lt_id ledger_txn) = v))"

fun find_exact_id_match :: "ExternalTxn \<Rightarrow> LedgerTxn list \<Rightarrow> LedgerTxn option" where
  "find_exact_id_match external_txn [] = None"
| "find_exact_id_match external_txn (ledger_txn # ledger_txns) =
     (if id_cross_reference external_txn ledger_txn then Some ledger_txn
      else find_exact_id_match external_txn ledger_txns)"

fun exact_amount_loop ::
  "recon_settings \<Rightarrow> ExternalTxn \<Rightarrow> LedgerTxn list \<Rightarrow> LedgerTxn list \<Rightarrow> LedgerTxn list" where
  "exact_amount_loop cfg external_txn matches [] = matches"
| "exact_amount_loop cfg external_txn matches (ledger_txn # ledger_txns) =
     exact_amount_loop cfg external_txn
       (if lt_amount ledger_txn = ext_amount external_txn
           \<and> lt_currency ledger_txn = ext_currency external_txn
        then (if \<bar>lt_timestamp ledger_txn - ext_timestamp external_txn\<bar>
                   \<le> timestamp_tolerance_seconds cfg * 1000000
              then matches @ [ledger_txn] else matches)
        else matches)
       ledger_txns"

definition find_exact_amount_matches ::
  "recon_settings \<Rightarrow> ExternalTxn \<Rightarrow> LedgerTxn list \<Rightarrow> LedgerTxn list" where
  "find_exact_amount_matches cfg external_txn ledger_txns =
     exact_amount_loop cfg external_txn [] ledger_txns"

definition validate_exact_match ::
  "pylib \<Rightarrow> recon_settings \<Rightarrow> ExternalTxn \<Rightarrow> LedgerTxn \<Rightarrow> MatchResult" where
  "validate_exact_match py cfg external_txn ledger_txn =
     (if ext_amount external_txn \<noteq> lt_amount ledger_txn then
        create_match_result ''ExactMatcher'' external_txn (Some ledger_txn) False 0
          (Some (''Amount mismatch: external='' @ str_decimal py (ext_amount external_txn)
                 @ '', ledger='' @ str_decimal py (lt_amount ledger_txn)))
      else if ext_currency external_txn \<noteq> lt_currency ledger_txn then
        create_match_result ''ExactMatcher'' external_txn (Some ledger_txn) False 0
          (Some (''Currency mismatch: external='' @ ext_currency external_txn
                 @ '', ledger='' @ lt_currency ledger_txn))
      else if real_of_int \<bar>lt_timestamp ledger_txn - ext_timestamp external_txn\<bar> / 1000000
                > real_of_int (timestamp_tolerance_seconds cfg) then
        create_match_result ''ExactMatcher'' external_txn (Some ledger_txn) False 0
          (Some (''Timestamp outside tolerance: diff=''
                 @ str_float py
                     (real_of_int \<bar>lt_timestamp ledger_txn - ext_timestamp external_txn\<bar>
                        / 1000000)
                 @ ''s''))
      else
        create_match_result ''ExactMatcher'' external_txn (Some ledger_txn) True 1 None)"

definition ExactMatcher_match ::
  "pylib \<Rightarrow> recon_settings \<Rightarrow> ExternalTxn \<Rightarrow> LedgerTxn list \<Rightarrow> MatchResult" where
  "ExactMatcher_match py cfg external_txn ledger_txns =
     (case find_exact_id_match external_txn ledger_txns of
        Some exact_match \<Rightarrow> validate_exact_match py cfg external_txn exact_match
      | None \<Rightarrow>
          let amount_matches = find_exact_amount_matches cfg external_txn ledger_txns in
          if length amount_matches = 1
          then validate_exact_match py cfg external_txn (amount_matches ! 0)
          else if length amount_matches > 1
          then create_match_result ''ExactMatcher'' external_txn None False 0
                 (Some ''Multiple exact amount matches found'')
          else create_match_result ''ExactMatcher'' external_txn None False 0
                 (Some ''No exact match found''))"





subsection \<open>FuzzyMatcher\<close>

text \<open>
  \<open>str.strip()\<close> removes ASCII whitespace at both ends; \<open>str(v)\<close> of a metadata value
  is the string itself, \<open>None\<close>, \<open>True\<close> or \<open>False\<close>, or the text of the number.
\<close>

definition is_space :: "char \<Rightarrow> bool" where
  "is_space c =
     ((9 \<le> (of_char c :: nat) \<and> (of_char c :: nat) \<le> 13)
      \<or> (28 \<le> (of_char c :: nat) \<and> (of_char c :: nat) \<le> 32))"

definition py_strip :: "string \<Rightarrow> string" where
  "py_strip s = rev (dropWhile is_space (rev (dropWhile is_space s)))"

definition py_str :: "pylib \<Rightarrow> pyval \<Rightarrow> string" where
  "py_str py v =
     (case v of
        PNone \<Rightarrow> ''None''
      | PStr s \<Rightarrow> s
      | PFloat x \<Rightarrow> str_float py x
      | PInt i \<Rightarrow> str_int py i
      | PBool b \<Rightarrow> (if b then ''True'' else ''False''))"

text \<open>
  \<open>_calculate_amount_similarity\<close>. The amounts are \<open>Decimal\<close>, so \<open>avg_amount\<close> and
  \<open>diff_percent\<close> are \<open>Decimal\<close>; \<open>tolerance_percent\<close> is a \<open>float\<close>
  (\<open>amount_tolerance_percent\<close> is declared \<open>float\<close>). The comparison
  \<open>diff_percent <= tolerance_percent\<close> is defined between the two types. The division
  \<open>diff_percent / tolerance_percent\<close> of the first branch and the subtraction
  \<open>1.0 - diff_percent\<close> of the second are not: \<open>Decimal\<close> and \<open>float\<close> both return
  \<open>NotImplemented\<close> for the other type, and Python raises \<open>TypeError\<close> (the
  message is given without the quotation marks around the type names).
\<close>

definition calculate_amount_similarity :: "recon_settings \<Rightarrow> rat \<Rightarrow> rat \<Rightarrow> exn + real" where
  "calculate_amount_similarity cfg external_amount ledger_amount =
     (if external_amount = ledger_amount then Inr 1
      else
        let avg_amount = (external_amount + ledger_amount) / 2 in
        if avg_amount = 0 then Inr 0
        else
          let diff_percent = \<bar>external_amount - ledger_amount\<bar> / avg_amount;
              tolerance_percent = amount_tolerance_percent cfg / 100
          in
          if real_of_rat diff_percent \<le> tolerance_percent
          then Inl (TypeError
                 ''unsupported operand type(s) for /: decimal.Decimal and float'')
          else Inl (TypeError
                 ''unsupported operand type(s) for -: float and decimal.Decimal''))"

text \<open>
  \<open>_calculate_timestamp_similarity\<close>: \<open>time_diff\<close> is a float, the tolerance an int;
  the division by a zero tolerance raises.
\<close>

definition calculate_timestamp_similarity ::
  "recon_settings \<Rightarrow> datetime \<Rightarrow> datetime \<Rightarrow> exn + real" where
  "calculate_timestamp_similarity cfg external_timestamp ledger_timestamp =
     (let time_diff = \<bar>real_of_int (external_timestamp - ledger_timestamp) / 1000000\<bar>;
          tolerance = real_of_int (timestamp_tolerance_seconds cfg)
      in
      if time_diff \<le> tolerance then
        (if tolerance = 0 then Inl (ZeroDivisionError ''float division by zero'')
         else Inr (1 - (time_diff / tolerance) * (1 / 2)))
      else
        let max_diff = tolerance * 10 in
        if time_diff > max_diff then Inr 0
        else Inr ((1 / 2) * (1 - (time_diff - tolerance) / (max_diff - tolerance))))"

definition ref_key :: "string \<Rightarrow> bool" where
  "ref_key key = (sublist ''ref'' (py_lower key) \<or> sublist ''id'' (py_lower key))"

fun reference_in :: "pylib \<Rightarrow> string \<Rightarrow> metadata \<Rightarrow> bool" where
  "reference_in py wanted [] = False"
| "reference_in py wanted ((key, v) # items) =
     (if ref_key key \<and> py_lower (py_str py v) = py_lower wanted then True
      else reference_in py wanted items)"

definition compare_transaction_references :: "pylib \<Rightarrow> ExternalTxn \<Rightarrow> LedgerTxn \<Rightarrow> real" where
  "compare_transaction_references py external_txn ledger_txn =
     (if reference_in py (ext_txn_id external_txn) (lt_metadata ledger_txn) then 1
      else if reference_in py (lt_id ledger_txn) (ext_metadata external_txn) then 1
      else
        (case ext_description external_txn of
           None \<Rightarrow> 0
         | Some description \<Rightarrow>
             if description = [] then 0
             else if sublist (py_lower (lt_id ledger_txn)) (py_lower description) then 8 / 10
             else if sublist (py_lower (lt_transaction_id ledger_txn)) (py_lower description)
             then 8 / 10
             else 0))"

text \<open>
  The loop over the keys that both metadata bags have. The keys are taken in the order of
  the external bag; the loop of the source runs over a set, whose order does not matter
  to the two sums formed afterwards.
\<close>

definition key_scores :: "pylib \<Rightarrow> metadata \<Rightarrow> metadata \<Rightarrow> string \<Rightarrow> real list" where
  "key_scores py external_meta ledger_meta key =
     (case map_of external_meta key of
        None \<Rightarrow> []
      | Some ev \<Rightarrow>
     (case map_of ledger_meta key of
        None \<Rightarrow> []
      | Some lv \<Rightarrow>
          let ext_value = py_strip (py_lower (py_str py ev));
              ledger_value = py_strip (py_lower (py_str py lv))
          in
          if ext_value = [] \<or> ledger_value = [] then []
          else if ext_value = ledger_value then [1]
          else [ratio py ext_value ledger_value]))"

fun common_key_scores :: "pylib \<Rightarrow> metadata \<Rightarrow> metadata \<Rightarrow> string list \<Rightarrow> real list" where
  "common_key_scores py external_meta ledger_meta [] = []"
| "common_key_scores py external_meta ledger_meta (key # keys) =
     key_scores py external_meta ledger_meta key
       @ common_key_scores py external_meta ledger_meta keys"

text \<open>
  \<open>_calculate_metadata_similarity\<close>. \<open>LedgerTxn\<close> declares no \<open>description\<close>
  field, so \<open>hasattr(ledger_txn, 'description')\<close> is false and the comparison of
  descriptions never runs.
\<close>

definition calculate_metadata_similarity :: "pylib \<Rightarrow> ExternalTxn \<Rightarrow> LedgerTxn \<Rightarrow> real" where
  "calculate_metadata_similarity py external_txn ledger_txn =
     (let common_keys = filter (\<lambda>k. k \<in> fst ` set (lt_metadata ledger_txn))
                          (remdups (map fst (ext_metadata external_txn)));
          scores1 = common_key_scores py (ext_metadata external_txn)
                      (lt_metadata ledger_txn) common_keys;
          ref_similarity = compare_transaction_references py external_txn ledger_txn;
          similarity_scores = scores1 @ (if ref_similarity > 0 then [ref_similarity] else [])
      in
      if similarity_scores \<noteq> [] then
        let weighted_sum = sum_list (map (\<lambda>score. score * score) similarity_scores);
            weight_sum = sum_list similarity_scores
        in if weight_sum > 0 then weighted_sum / weight_sum else 0
      else 1 / 2)"

definition weight :: "recon_settings \<Rightarrow> string \<Rightarrow> exn + real" where
  "weight cfg key =
     (case map_of (fuzzy_weights cfg) key of
        None \<Rightarrow> Inl (KeyError key)
      | Some w \<Rightarrow> Inr w)"

definition calculate_match_score ::
  "pylib \<Rightarrow> recon_settings \<Rightarrow> ExternalTxn \<Rightarrow> LedgerTxn \<Rightarrow> exn + real" where
  "calculate_match_score py cfg external_txn ledger_txn =
     (case calculate_amount_similarity cfg (ext_amount external_txn) (lt_amount ledger_txn) of
        Inl e \<Rightarrow> Inl e
      | Inr amount_score \<Rightarrow>
     (case calculate_timestamp_similarity cfg (ext_timestamp external_txn)
             (lt_timestamp ledger_txn) of
        Inl e \<Rightarrow> Inl e
      | Inr timestamp_score \<Rightarrow>
     (let metadata_score = calculate_metadata_similarity py external_txn ledger_txn;
          currency_score =
            (if ext_currency external_txn = lt_currency ledger_txn then 1 else 0 :: real)
      in
      case weight cfg ''amount'' of Inl e \<Rightarrow> Inl e | Inr w_amount \<Rightarrow>
      (case weight cfg ''timestamp'' of Inl e \<Rightarrow> Inl e | Inr w_timestamp \<Rightarrow>
      (case weight cfg ''metadata'' of Inl e \<Rightarrow> Inl e | Inr w_metadata \<Rightarrow>
         Inr ((amount_score * w_amount + timestamp_score * w_timestamp
               + metadata_score * w_metadata) * currency_score))))))"

fun fuzzy_loop ::
  "pylib \<Rightarrow> recon_settings \<Rightarrow> ExternalTxn \<Rightarrow> LedgerTxn option \<times> real \<Rightarrow> LedgerTxn list
     \<Rightarrow> exn + (LedgerTxn option \<times> real)" where
  "fuzzy_loop py cfg external_txn best [] = Inr best"
| "fuzzy_loop py cfg external_txn (best_match, best_score) (ledger_txn # ledger_txns) =
     (case calculate_match_score py cfg external_txn ledger_txn of
        Inl e \<Rightarrow> Inl e
      | Inr score \<Rightarrow>
          fuzzy_loop py cfg external_txn
            (if score > best_score then (Some ledger_txn, score) else (best_match, best_score))
            ledger_txns)"

definition FuzzyMatcher_match ::
  "pylib \<Rightarrow> recon_settings \<Rightarrow> ExternalTxn \<Rightarrow> LedgerTxn list \<Rightarrow> exn + MatchResult" where
  "FuzzyMatcher_match py cfg external_txn ledger_txns =
     (case fuzzy_loop py cfg external_txn (None, 0) ledger_txns of
        Inl e \<Rightarrow> Inl e
      | Inr (best_match, best_score) \<Rightarrow>
          if best_score \<ge> min_match_score cfg
          then Inr (create_match_result ''FuzzyMatcher'' external_txn best_match True
                      best_score None)
          else Inr (create_match_result ''FuzzyMatcher'' external_txn best_match False
                      best_score
                      (Some (''Best match score '' @ format_3f py best_score
                             @ '' below threshold '' @ str_float py (min_match_score cfg)))))"

subsection \<open>Example transactions\<close>

definition example_external :: "rat \<Rightarrow> ExternalTxn" where
  "example_external amt =
     \<lparr>ext_txn_id = ''X'', ext_amount = amt, ext_currency = ''USD'', ext_timestamp = 0,
      ext_description = None, ext_metadata = []\<rparr>"

definition example_ledger_txn :: "uuid \<Rightarrow> rat \<Rightarrow> LedgerTxn" where
  "example_ledger_txn i amt =
     \<lparr>lt_id = i, lt_transaction_id = ''t1'', lt_amount = amt, lt_currency = ''USD'',
      lt_timestamp = 0, lt_event_type = ''CREDIT'', lt_source_account_id = None,
      lt_destination_account_id = Some ''alice'', lt_metadata = []\<rparr>"

section \<open>Reconciliation: journal and engine\<close>

subsection \<open>ReconLogger\<close>

type_synonym date = int

record recon_job =
  rj_id :: uuid
  rj_job_date :: date
  rj_source_name :: string
  rj_status :: string
  rj_total_external_txns :: nat
  rj_total_ledger_txns :: nat
  rj_matched_count :: nat
  rj_unmatched_count :: nat
  rj_error_message :: "string option"

text \<open>
  A row of \<open>recon_logs\<close>. The three columns read out of the metadata hold the result of
  \<open>dict.get\<close>, which is \<open>None\<close> (SQL \<open>NULL\<close>) for a missing key.
\<close>

record recon_log =
  rl_recon_date :: date
  rl_source_name :: string
  rl_external_txn_id :: string
  rl_ledger_txn_id :: "uuid option"
  rl_matched :: bool
  rl_mismatch_reason :: "string option"
  rl_match_score :: real
  rl_amount_difference :: rat
  rl_ledger_amount :: pyval
  rl_external_amount :: pyval
  rl_currency :: pyval
  rl_timestamp_diff_seconds :: int
  rl_metadata :: metadata

record recon_db =
  recon_jobs :: "recon_job list"
  recon_logs :: "recon_log list"

definition dict_get :: "metadata \<Rightarrow> string \<Rightarrow> pyval" where
  "dict_get md key = (case map_of md key of None \<Rightarrow> PNone | Some v \<Rightarrow> v)"

text \<open>
  \<open>create_job\<close>: an upsert on \<open>(job_date, source_name)\<close> that returns the id of the
  row; a reused row is set to RUNNING. \<open>job_id\<close> is the result of \<open>uuid4()\<close>.

  Modelled from the spec: the table definition is not part of the sources; the counters
  of a new row start at 0 and its error message is empty, as in the \<open>ReconJob\<close> model.
\<close>

definition create_job ::
  "faults \<Rightarrow> uuid \<Rightarrow> recon_db \<Rightarrow> date \<Rightarrow> string \<Rightarrow> (exn + uuid) \<times> recon_db" where
  "create_job fails job_id rdb job_date source_name =
     (case fails UpsertReconJob of
        Some m \<Rightarrow> (Inl (DatabaseError m), rdb)
      | None \<Rightarrow>
          (case find (\<lambda>j. rj_job_date j = job_date \<and> rj_source_name j = source_name)
                  (recon_jobs rdb) of
             Some existing \<Rightarrow>
               (Inr (rj_id existing),
                rdb\<lparr>recon_jobs :=
                  map (\<lambda>j. if rj_job_date j = job_date \<and> rj_source_name j = source_name
                            then j\<lparr>rj_status := ''RUNNING''\<rparr> else j)
                      (recon_jobs rdb)\<rparr>)
           | None \<Rightarrow>
               (Inr job_id,
                rdb\<lparr>recon_jobs := recon_jobs rdb @
                  [\<lparr>rj_id = job_id, rj_job_date = job_date, rj_source_name = source_name,
                    rj_status = ''RUNNING'', rj_total_external_txns = 0,
                    rj_total_ledger_txns = 0, rj_matched_count = 0,
                    rj_unmatched_count = 0, rj_error_message = None\<rparr>]\<rparr>)))"

definition finalize_job ::
  "faults \<Rightarrow> recon_db \<Rightarrow> uuid \<Rightarrow> nat \<Rightarrow> nat \<Rightarrow> nat \<Rightarrow> nat \<Rightarrow> string \<Rightarrow> string option
     \<Rightarrow> (exn + unit) \<times> recon_db" where
  "finalize_job fails rdb job_id matched_count unmatched_count total_external_txns
       total_ledger_txns status error_message =
     (case fails (UpdateReconJob status) of
        Some m \<Rightarrow> (Inl (DatabaseError m), rdb)
      | None \<Rightarrow>
          (Inr (),
           rdb\<lparr>recon_jobs :=
             map (\<lambda>j. if rj_id j = job_id
                       then j\<lparr>rj_status := status,
                              rj_total_external_txns := total_external_txns,
                              rj_total_ledger_txns := total_ledger_txns,
                              rj_matched_count := matched_count,
                              rj_unmatched_count := unmatched_count,
                              rj_error_message := error_message\<rparr>
                       else j)
                 (recon_jobs rdb)\<rparr>))"

definition log_row :: "date \<Rightarrow> string \<Rightarrow> MatchResult \<Rightarrow> recon_log" where
  "log_row job_date source_name result =
     \<lparr>rl_recon_date = job_date, rl_source_name = source_name,
      rl_external_txn_id = external_txn_id result,
      rl_ledger_txn_id = ledger_txn_id result, rl_matched = matched result,
      rl_mismatch_reason = mismatch_reason result, rl_match_score = match_score result,
      rl_amount_difference = amount_diff result,
      rl_ledger_amount = dict_get (mr_metadata result) ''ledger_amount'',
      rl_external_amount = dict_get (mr_metadata result) ''external_amount'',
      rl_currency = dict_get (mr_metadata result) ''currency'',
      rl_timestamp_diff_seconds = timestamp_diff_seconds result,
      rl_metadata = mr_metadata result\<rparr>"

definition log_result ::
  "faults \<Rightarrow> stmt \<Rightarrow> recon_db \<Rightarrow> date \<Rightarrow> string \<Rightarrow> MatchResult \<Rightarrow> (exn + unit) \<times> recon_db" where
  "log_result fails statement rdb job_date source_name result =
     (case fails statement of
        Some m \<Rightarrow> (Inl (DatabaseError m), rdb)
      | None \<Rightarrow>
          (Inr (), rdb\<lparr>recon_logs := recon_logs rdb @ [log_row job_date source_name result]\<rparr>))"

subsection \<open>ReconEngine\<close>

definition no_currency_result :: "ExternalTxn \<Rightarrow> MatchResult" where
  "no_currency_result external_txn =
     \<lparr>matched = False, match_score = 0,
      mismatch_reason =
        Some (''No ledger transactions found for currency '' @ ext_currency external_txn),
      ledger_txn_id = None, external_txn_id = ext_txn_id external_txn, amount_diff = 0,
      timestamp_diff_seconds = 0, mr_metadata = []\<rparr>"

definition match_transaction ::
  "pylib \<Rightarrow> recon_settings \<Rightarrow> ExternalTxn \<Rightarrow> LedgerTxn list \<Rightarrow> exn + MatchResult" where
  "match_transaction py cfg external_txn ledger_txns =
     (let currency_filtered =
            filter (\<lambda>txn. lt_currency txn = ext_currency external_txn) ledger_txns
      in
      if currency_filtered = [] then Inr (no_currency_result external_txn)
      else
        let exact_result = ExactMatcher_match py cfg external_txn currency_filtered in
        if matched exact_result then Inr exact_result
        else
          (case FuzzyMatcher_match py cfg external_txn currency_filtered of
             Inl e \<Rightarrow> Inl e
           | Inr fuzzy_result \<Rightarrow>
               if match_score fuzzy_result > match_score exact_result
               then Inr fuzzy_result else Inr exact_result))"

text \<open>\<open>dict.update\<close>: a present key keeps its place, a new key goes to the end.\<close>

definition dict_update :: "metadata \<Rightarrow> metadata \<Rightarrow> metadata" where
  "dict_update md items = foldl (\<lambda>m (k, v). AList.update k v m) md items"

definition enhance_match_result ::
  "pylib \<Rightarrow> MatchResult \<Rightarrow> ExternalTxn \<Rightarrow> LedgerTxn list \<Rightarrow> MatchResult" where
  "enhance_match_result py match_result external_txn ledger_txns =
     (let matched_ledger_txn =
            (case ledger_txn_id match_result of
               None \<Rightarrow> None
             | Some i \<Rightarrow> find (\<lambda>txn. lt_id txn = i) ledger_txns);
          enhanced1 = dict_update (mr_metadata match_result)
            [(''external_amount'', PFloat (real_of_rat (ext_amount external_txn))),
             (''external_currency'', PStr (ext_currency external_txn)),
             (''external_timestamp'', PStr (isoformat py (ext_timestamp external_txn))),
             (''external_description'', opt_str (ext_description external_txn))];
          enhanced_metadata =
            (case matched_ledger_txn of
               None \<Rightarrow> enhanced1
             | Some l \<Rightarrow> dict_update enhanced1
                 [(''ledger_amount'', PFloat (real_of_rat (lt_amount l))),
                  (''ledger_currency'', PStr (lt_currency l)),
                  (''ledger_timestamp'', PStr (isoformat py (lt_timestamp l))),
                  (''ledger_event_type'', PStr (lt_event_type l))])
      in match_result\<lparr>mr_metadata := enhanced_metadata\<rparr>)"

definition failed_result :: "exn \<Rightarrow> ExternalTxn \<Rightarrow> MatchResult" where
  "failed_result e external_txn =
     \<lparr>matched = False, match_score = 0,
      mismatch_reason = Some (''Processing error: '' @ str_exn e),
      ledger_txn_id = None, external_txn_id = ext_txn_id external_txn, amount_diff = 0,
      timestamp_diff_seconds = 0, mr_metadata = []\<rparr>"

text \<open>
  The body of the loop of \<open>run\<close> for the external transaction at position \<open>i\<close>: the
  \<open>try\<close> block matches, enhances, logs and counts; the handler counts the row as
  unmatched and logs the failed result, and an exception of that second insert leaves
  the loop.
\<close>

definition process_row ::
  "pylib \<Rightarrow> recon_settings \<Rightarrow> faults \<Rightarrow> date \<Rightarrow> string \<Rightarrow> LedgerTxn list \<Rightarrow> nat
     \<Rightarrow> nat \<times> nat \<Rightarrow> recon_db \<Rightarrow> ExternalTxn \<Rightarrow> (exn + nat \<times> nat) \<times> recon_db" where
  "process_row py cfg fails target_date source_name ledger_txns i counts rdb external_txn =
     (let attempt =
            (case match_transaction py cfg external_txn ledger_txns of
               Inl e \<Rightarrow> Inl e
             | Inr match_result \<Rightarrow>
                 let enhanced_result =
                       enhance_match_result py match_result external_txn ledger_txns
                 in
                 (case log_result fails (InsertReconLog i False) rdb target_date source_name
                         enhanced_result of
                    (Inl e, r) \<Rightarrow> Inl e
                  | (Inr u, r) \<Rightarrow> Inr (enhanced_result, r)))
      in
      case attempt of
        Inr (enhanced_result, r) \<Rightarrow>
          (Inr (if matched enhanced_result then (fst counts + 1, snd counts)
                else (fst counts, snd counts + 1)), r)
      | Inl e \<Rightarrow>
          (case log_result fails (InsertReconLog i True) rdb target_date source_name
                  (failed_result e external_txn) of
             (Inl e', r) \<Rightarrow> (Inl e', r)
           | (Inr u, r) \<Rightarrow> (Inr (fst counts, snd counts + 1), r)))"

fun process_rows ::
  "pylib \<Rightarrow> recon_settings \<Rightarrow> faults \<Rightarrow> date \<Rightarrow> string \<Rightarrow> LedgerTxn list \<Rightarrow> nat
     \<Rightarrow> nat \<times> nat \<Rightarrow> recon_db \<Rightarrow> ExternalTxn list \<Rightarrow> (exn + nat \<times> nat) \<times> recon_db" where
  "process_rows py cfg fails target_date source_name ledger_txns i counts rdb [] =
     (Inr counts, rdb)"
| "process_rows py cfg fails target_date source_name ledger_txns i counts rdb
       (external_txn # external_txns) =
     (case process_row py cfg fails target_date source_name ledger_txns i counts rdb
             external_txn of
        (Inl e, r) \<Rightarrow> (Inl e, r)
      | (Inr counts', r) \<Rightarrow>
          process_rows py cfg fails target_date source_name ledger_txns (Suc i) counts' r
            external_txns)"

text \<open>
  \<open>run\<close>. \<open>loaded\<close> is the outcome of \<open>_load_external_transactions\<close> and
  \<open>ledger_read\<close> that of \<open>LedgerReader.get_transactions_for_date\<close>, both reads of
  the world outside the journal. \<open>create_job\<close> runs before the \<open>try\<close>; any exception
  inside it marks the job FAILED and is raised again.
\<close>

definition run_body ::
  "pylib \<Rightarrow> recon_settings \<Rightarrow> faults \<Rightarrow> exn + ExternalTxn list \<Rightarrow> exn + LedgerTxn list
     \<Rightarrow> date \<Rightarrow> string \<Rightarrow> uuid \<Rightarrow> recon_db \<Rightarrow> (exn + unit) \<times> recon_db" where
  "run_body py cfg fails loaded ledger_read target_date source_name job_id rdb =
     (case loaded of
        Inl e \<Rightarrow> (Inl e, rdb)
      | Inr external_txns \<Rightarrow>
     (case ledger_read of
        Inl e \<Rightarrow> (Inl e, rdb)
      | Inr ledger_txns \<Rightarrow>
     (case process_rows py cfg fails target_date source_name ledger_txns 0 (0, 0) rdb
             external_txns of
        (Inl e, r) \<Rightarrow> (Inl e, r)
      | (Inr (matched_count, unmatched_count), r) \<Rightarrow>
          finalize_job fails r job_id matched_count unmatched_count (length external_txns)
            (length ledger_txns) ''COMPLETED'' None)))"

definition run ::
  "pylib \<Rightarrow> recon_settings \<Rightarrow> faults \<Rightarrow> uuid \<Rightarrow> exn + ExternalTxn list
     \<Rightarrow> exn + LedgerTxn list \<Rightarrow> date \<Rightarrow> string \<Rightarrow> recon_db \<Rightarrow> (exn + uuid) \<times> recon_db" where
  "run py cfg fails new_job_id loaded ledger_read target_date source_name rdb =
     (case create_job fails new_job_id rdb target_date source_name of
        (Inl e, r0) \<Rightarrow> (Inl e, r0)
      | (Inr job_id, r0) \<Rightarrow>
          (case run_body py cfg fails loaded ledger_read target_date source_name job_id r0 of
             (Inr u, r1) \<Rightarrow> (Inr job_id, r1)
           | (Inl e, r1) \<Rightarrow>
               (case finalize_job fails r1 job_id 0 0 0 0 ''FAILED'' (Some (str_exn e)) of
                  (Inl e', r2) \<Rightarrow> (Inl e', r2)
                | (Inr u, r2) \<Rightarrow> (Inl e, r2))))"


text \<open>
  The log of \<open>rdb'\<close> is the log of \<open>rdb\<close> followed by rows whose currency column
  is null.
\<close>

definition appends_null_currency :: "recon_db \<Rightarrow> recon_db \<Rightarrow> bool" where
  "appends_null_currency rdb rdb' =
     (\<exists>new. recon_logs rdb' = recon_logs rdb @ new
           \<and> (\<forall>row \<in> set new. rl_currency row = PNone))"


section \<open>Properties of the ledger\<close>

lemma get_transaction_fail:
  "get_transaction fails d body = (Inl e, d') \<Longrightarrow> d' = d"
  by (auto simp: get_transaction_def split: sum.splits prod.splits option.splits)

lemma get_transaction_ok:
  "get_transaction fails d body = (Inr r, d') \<Longrightarrow> body d = Inr (r, d') \<and> fails Commit = None"
  by (auto simp: get_transaction_def split: sum.splits prod.splits option.splits)

lemma validate_transfer_valid:
  assumes "validate_transfer py st fails d t = Inr v" and "valid v"
  shows "tr_source_account_id t \<noteq> tr_destination_account_id t
       \<and> (\<exists>sa. accounts d (tr_source_account_id t) = Some sa
               \<and> acc_currency sa = tr_currency t)
       \<and> (\<exists>da. accounts d (tr_destination_account_id t) = Some da
               \<and> acc_currency da = tr_currency t)"
  using assms
  by (auto simp: validate_transfer_def AccountRepository_exists_def
        AccountRepository_get_by_id_def Let_def
      split: sum.splits option.splits if_splits)

lemma create_transfer_events_ok:
  assumes "create_transfer_events fails tid did cid d src dst amt cur md = Inr (evs, d')"
  shows "evs = [\<lparr>ev_id = did, ev_source_account_id = Some src,
              ev_destination_account_id = None, ev_amount = amt,
              ev_currency = cur, ev_event_type = DEBIT,
              ev_transaction_id = tid, ev_metadata = md, ev_status = SETTLED\<rparr>,
             \<lparr>ev_id = cid, ev_source_account_id = None,
              ev_destination_account_id = Some dst, ev_amount = amt,
              ev_currency = cur, ev_event_type = CREDIT,
              ev_transaction_id = tid, ev_metadata = md, ev_status = SETTLED\<rparr>]
       \<and> d' = d\<lparr>ledger_events := ledger_events d @ evs\<rparr>"
  using assms
  by (auto simp: create_transfer_events_def create_event_def Let_def
      split: sum.splits option.splits if_splits prod.splits)

lemma collect_updates_pair:
  assumes "src \<noteq> dst"
  shows "collect_updates []
     [\<lparr>ev_id = did, ev_source_account_id = Some src,
              ev_destination_account_id = None, ev_amount = amt,
              ev_currency = cur, ev_event_type = DEBIT,
              ev_transaction_id = tid, ev_metadata = md, ev_status = SETTLED\<rparr>,
             \<lparr>ev_id = cid, ev_source_account_id = None,
              ev_destination_account_id = Some dst, ev_amount = amt,
              ev_currency = cur, ev_event_type = CREDIT,
              ev_transaction_id = tid, ev_metadata = md, ev_status = SETTLED\<rparr>]
    = [(src, (cur, - amt, 0)), (dst, (cur, amt, 0))]"
  using assms by (simp add: add_available_def)

lemma apply_updates_pair:
  assumes "apply_updates fails d [(a, (c1, x, p1)), (b, (c2, y, p2))] = Inr (bals, d')"
  shows "bals = [upsert_row (balances d a) a c1 x p1,
                 upsert_row (((balances d)(a \<mapsto> upsert_row (balances d a) a c1 x p1)) b) b c2 y p2]
       \<and> d' = d\<lparr>balances := (balances d)(a \<mapsto> upsert_row (balances d a) a c1 x p1,
                   b \<mapsto> upsert_row (((balances d)(a \<mapsto> upsert_row (balances d a) a c1 x p1)) b) b c2 y p2)\<rparr>"
  using assms
  by (auto simp: upsert_balance_def Let_def split: sum.splits option.splits prod.splits)

lemma transfer_funds_not_success:
  assumes "transfer_funds py st fails tid did cid d t = (r, d')"
    and "\<forall>x evs bals. r \<noteq> Inr (Success x evs bals)"
  shows "d' = d"
proof (cases "validate_transfer py st fails d t")
  case (Inl e)
  with assms show ?thesis by (simp add: transfer_funds_def)
next
  case (Inr v)
  show ?thesis
  proof (cases "valid v")
    case False
    with Inr assms show ?thesis by (simp add: transfer_funds_def)
  next
    case True
    show ?thesis
    proof (cases r)
      case (Inl e)
      with Inr True assms(1) show ?thesis
        by (auto simp: transfer_funds_def dest: get_transaction_fail)
    next
      case r: (Inr res)
      with assms(2) obtain errs where res: "res = Failure errs" by (cases res) auto
      from Inr True assms(1) r res show ?thesis
        by (auto simp: transfer_funds_def validate_sufficient_funds_def
              check_sufficient_funds_def
            dest!: get_transaction_ok split: sum.splits if_splits prod.splits option.splits)
    qed
  qed
qed

lemma transfer_funds_success:
  assumes "transfer_funds py st fails tid did cid d t = (Inr (Success x evs bals), d')"
  shows "x = tid \<and> evs = [debit_row tid did t, credit_row tid cid t]
       \<and> tr_source_account_id t \<noteq> tr_destination_account_id t
       \<and> (\<exists>sa. accounts d (tr_source_account_id t) = Some sa
               \<and> acc_currency sa = tr_currency t)
       \<and> (\<exists>da. accounts d (tr_destination_account_id t) = Some da
               \<and> acc_currency da = tr_currency t)
       \<and> bals = [upsert_row (balances d (tr_source_account_id t)) (tr_source_account_id t)
                    (tr_currency t) (- tr_amount t) 0,
                  upsert_row (balances d (tr_destination_account_id t)) (tr_destination_account_id t)
                    (tr_currency t) (tr_amount t) 0]
       \<and> d' = d\<lparr>ledger_events := ledger_events d @ evs,
                 balances := (balances d)
                   (tr_source_account_id t \<mapsto> bals ! 0, tr_destination_account_id t \<mapsto> bals ! 1)\<rparr>"
proof -
  obtain v where v: "validate_transfer py st fails d t = Inr v" and val: "valid v"
    using assms by (auto simp: transfer_funds_def split: sum.splits if_splits)
  note vv = validate_transfer_valid[OF v val]
  let ?body = "(\<lambda>conn.
                 case validate_sufficient_funds st fails conn
                        (tr_source_account_id t) (tr_amount t) of
                   Inl e \<Rightarrow> Inl e
                 | Inr has_funds \<Rightarrow>
                     if \<not> has_funds then Inr (Failure [''Insufficient funds''], conn)
                     else
                       (case create_transfer_events fails tid did cid conn
                               (tr_source_account_id t)
                               (tr_destination_account_id t)
                               (tr_amount t) (tr_currency t)
                               (tr_metadata t) of
                          Inl e \<Rightarrow> Inl e
                        | Inr (events, conn1) \<Rightarrow>
                            (case project_events_to_balances fails conn1 events of
                               Inl e \<Rightarrow> Inl e
                             | Inr (bals, conn2) \<Rightarrow>
                                 Inr (Success (ev_transaction_id (hd events)) events bals,
                                      conn2))))"
  have "get_transaction fails d ?body = (Inr (Success x evs bals), d')"
    using assms v val by (simp add: transfer_funds_def)
  from get_transaction_ok[OF this] have body: "?body d = Inr (Success x evs bals, d')" by simp
  obtain hf where hf: "validate_sufficient_funds st fails d
                        (tr_source_account_id t) (tr_amount t) = Inr hf"
    using body by (cases "validate_sufficient_funds st fails d
                        (tr_source_account_id t) (tr_amount t)") simp_all
  have hft: "hf" using body hf by (cases hf) simp_all
  obtain es d1 where
    cte: "create_transfer_events fails tid did cid d (tr_source_account_id t)
            (tr_destination_account_id t) (tr_amount t) (tr_currency t) (tr_metadata t) = Inr (es, d1)"
    using body hf hft by (cases "create_transfer_events fails tid did cid d (tr_source_account_id t)
            (tr_destination_account_id t) (tr_amount t) (tr_currency t) (tr_metadata t)") auto
  obtain bs d2 where proj0: "project_events_to_balances fails d1 es = Inr (bs, d2)"
    using body hf hft cte by (cases "project_events_to_balances fails d1 es") auto
  from body hf hft cte proj0
  have xe: "x = ev_transaction_id (hd es)" "evs = es" and bb: "bs = bals" "d2 = d'"
    by auto
  from proj0 bb have proj: "project_events_to_balances fails d1 es = Inr (bals, d')" by simp
  from create_transfer_events_ok[OF cte]
  have es: "es = [debit_row tid did t, credit_row tid cid t]"
    and d1: "d1 = d\<lparr>ledger_events := ledger_events d @ es\<rparr>"
    by (simp_all add: debit_row_def credit_row_def)
  have cu: "collect_updates [] es = [(tr_source_account_id t, (tr_currency t, - tr_amount t, 0)),
       (tr_destination_account_id t, (tr_currency t, tr_amount t, 0))]"
    unfolding es debit_row_def credit_row_def using vv by (intro collect_updates_pair) simp
  from proj have "apply_updates fails d1 [(tr_source_account_id t, (tr_currency t, - tr_amount t, 0)),
       (tr_destination_account_id t, (tr_currency t, tr_amount t, 0))] = Inr (bals, d')"
    by (simp add: project_events_to_balances_def cu)
  note ap = apply_updates_pair[OF this]
  have ne: "tr_destination_account_id t \<noteq> tr_source_account_id t" using vv by auto
  have x: "x = tid" using xe es by (simp add: debit_row_def)
  have b: "bals = [upsert_row (balances d (tr_source_account_id t)) (tr_source_account_id t)
                    (tr_currency t) (- tr_amount t) 0,
                  upsert_row (balances d (tr_destination_account_id t)) (tr_destination_account_id t)
                    (tr_currency t) (tr_amount t) 0]"
    using ap ne by (simp add: d1)
  have d: "d' = d\<lparr>ledger_events := ledger_events d @ evs,
                 balances := (balances d)
                   (tr_source_account_id t \<mapsto> bals ! 0, tr_destination_account_id t \<mapsto> bals ! 1)\<rparr>"
    using ap ne xe by (simp add: d1 b)
  from x b d vv xe es show ?thesis by blast
qed

lemma create_account_cases:
  assumes "create_account fails new_id d account_data = (r, d')"
  shows "(\<exists>e. r = Inl e \<and> d' = d)
       \<or> (accounts d new_id = None
          \<and> (\<exists>e. r = Inl e)
          \<and> d' = d\<lparr>accounts := (accounts d)(new_id \<mapsto>
                 \<lparr>acc_id = new_id, acc_currency = ac_currency account_data,
                  acc_type = ac_type account_data, acc_metadata = ac_metadata account_data\<rparr>)\<rparr>)
       \<or> (accounts d new_id = None
          \<and> r = Inr \<lparr>acc_id = new_id, acc_currency = ac_currency account_data,
                  acc_type = ac_type account_data, acc_metadata = ac_metadata account_data\<rparr>
          \<and> d' = d\<lparr>accounts := (accounts d)(new_id \<mapsto>
                 \<lparr>acc_id = new_id, acc_currency = ac_currency account_data,
                  acc_type = ac_type account_data, acc_metadata = ac_metadata account_data\<rparr>),
               balances := (balances d)(new_id \<mapsto>
                 upsert_row (balances d new_id) new_id (ac_currency account_data) 0 0)\<rparr>)"
  using assms
  by (auto simp: create_account_def AccountRepository_create_def get_transaction_def
        upsert_balance_def Let_def
      split: option.splits if_splits sum.splits prod.splits)

lemma sums_untouched:
  assumes "\<forall>e \<in> set evs. \<not> touches e a"
  shows "settled_credits evs a = 0" "settled_debits evs a = 0"
  using assms
  by (induction evs) (auto simp: settled_credits_def settled_debits_def touches_def)

lemma sums_append_transfer:
  "settled_credits (evs @ [debit_row tid did t, credit_row tid cid t]) a
     = settled_credits evs a + (if a = tr_destination_account_id t then tr_amount t else 0)"
  "settled_debits (evs @ [debit_row tid did t, credit_row tid cid t]) a
     = settled_debits evs a + (if a = tr_source_account_id t then tr_amount t else 0)"
  by (auto simp: settled_credits_def settled_debits_def debit_row_def credit_row_def)

lemma ledger_inv_empty: "ledger_inv empty_db"
  by (simp add: ledger_inv_def empty_db_def)

lemma ledger_inv_add_account:
  assumes inv: "ledger_inv d" and n: "accounts d new_id = None"
  shows "ledger_inv (d\<lparr>accounts := (accounts d)(new_id \<mapsto> row)\<rparr>)"
proof -
  have key: "((accounts d)(new_id \<mapsto> row)) a = Some acc" if "accounts d a = Some acc" for a acc
    using that n by (cases "a = new_id") simp_all
  have 1: "\<exists>acc. ((accounts d)(new_id \<mapsto> row)) a = Some acc \<and> acc_currency acc = c"
    if "\<exists>acc. accounts d a = Some acc \<and> acc_currency acc = c" for a c
    using that key by blast
  show ?thesis
    unfolding ledger_inv_def
  proof (intro conjI allI impI ballI)
    fix a b assume b: "balances (d\<lparr>accounts := (accounts d)(new_id \<mapsto> row)\<rparr>) a = Some b"
    then have b': "balances d a = Some b" by simp
    from inv b' show "available_balance b =
       settled_credits (ledger_events (d\<lparr>accounts := (accounts d)(new_id \<mapsto> row)\<rparr>)) a
       - settled_debits (ledger_events (d\<lparr>accounts := (accounts d)(new_id \<mapsto> row)\<rparr>)) a"
      by (simp add: ledger_inv_def)
    from inv b' show "pending_balance b = 0" by (simp add: ledger_inv_def)
    from inv b' have "\<exists>acc. accounts d a = Some acc \<and> acc_currency acc = bal_currency b"
      unfolding ledger_inv_def by blast
    from 1[OF this]
    show "\<exists>acc. accounts (d\<lparr>accounts := (accounts d)(new_id \<mapsto> row)\<rparr>) a = Some acc
             \<and> acc_currency acc = bal_currency b" by simp
  next
    fix a e assume "balances (d\<lparr>accounts := (accounts d)(new_id \<mapsto> row)\<rparr>) a = None"
      and "e \<in> set (ledger_events (d\<lparr>accounts := (accounts d)(new_id \<mapsto> row)\<rparr>))"
    with inv show "\<not> touches e a" by (simp add: ledger_inv_def)
  next
    fix e a assume "e \<in> set (ledger_events (d\<lparr>accounts := (accounts d)(new_id \<mapsto> row)\<rparr>))"
      and "touches e a"
    with inv have "\<exists>acc. accounts d a = Some acc \<and> acc_currency acc = ev_currency e"
      unfolding ledger_inv_def by simp
    from 1[OF this]
    show "\<exists>acc. accounts (d\<lparr>accounts := (accounts d)(new_id \<mapsto> row)\<rparr>) a = Some acc
             \<and> acc_currency acc = ev_currency e" by simp
  qed
qed

lemma ledger_inv_add_balance:
  assumes inv: "ledger_inv d" and n: "balances d a0 = None"
    and acc: "accounts d a0 = Some acc0" "acc_currency acc0 = c"
  shows "ledger_inv (d\<lparr>balances := (balances d)(a0 \<mapsto> upsert_row None a0 c 0 0)\<rparr>)"
proof -
  have un: "\<forall>e \<in> set (ledger_events d). \<not> touches e a0"
    using inv n by (simp add: ledger_inv_def)
  note z = sums_untouched[OF un]
  show ?thesis
    unfolding ledger_inv_def
  proof (intro conjI allI impI ballI)
    fix a b
    assume b: "balances (d\<lparr>balances := (balances d)(a0 \<mapsto> upsert_row None a0 c 0 0)\<rparr>) a = Some b"
    show "available_balance b =
       settled_credits (ledger_events (d\<lparr>balances := (balances d)(a0 \<mapsto> upsert_row None a0 c 0 0)\<rparr>)) a
       - settled_debits (ledger_events (d\<lparr>balances := (balances d)(a0 \<mapsto> upsert_row None a0 c 0 0)\<rparr>)) a"
      using b inv z by (cases "a = a0") (auto simp: ledger_inv_def upsert_row_def)
    show "pending_balance b = 0"
      using b inv by (cases "a = a0") (auto simp: ledger_inv_def upsert_row_def)
    show "\<exists>acc. accounts (d\<lparr>balances := (balances d)(a0 \<mapsto> upsert_row None a0 c 0 0)\<rparr>) a = Some acc
             \<and> acc_currency acc = bal_currency b"
      using b inv acc by (cases "a = a0") (auto simp: ledger_inv_def upsert_row_def)
  next
    fix a e
    assume "balances (d\<lparr>balances := (balances d)(a0 \<mapsto> upsert_row None a0 c 0 0)\<rparr>) a = None"
      and "e \<in> set (ledger_events (d\<lparr>balances := (balances d)(a0 \<mapsto> upsert_row None a0 c 0 0)\<rparr>))"
    with inv show "\<not> touches e a" by (cases "a = a0") (auto simp: ledger_inv_def)
  next
    fix e a
    assume "e \<in> set (ledger_events (d\<lparr>balances := (balances d)(a0 \<mapsto> upsert_row None a0 c 0 0)\<rparr>))"
      and "touches e a"
    with inv show "\<exists>acc. accounts (d\<lparr>balances := (balances d)(a0 \<mapsto> upsert_row None a0 c 0 0)\<rparr>) a = Some acc
             \<and> acc_currency acc = ev_currency e"
      unfolding ledger_inv_def by simp
  qed
qed

lemma ledger_inv_create:
  assumes "ledger_inv d"
  shows "ledger_inv (snd (create_account fails new_id d account_data))"
proof -
  obtain r d' where rd: "create_account fails new_id d account_data = (r, d')"
    by (cases "create_account fails new_id d account_data")
  let ?row = "\<lparr>acc_id = new_id, acc_currency = ac_currency account_data,
                  acc_type = ac_type account_data, acc_metadata = ac_metadata account_data\<rparr>"
  have nb: "balances d new_id = None" if "accounts d new_id = None"
  proof (cases "balances d new_id")
    case (Some b)
    with assms have "\<exists>acc. accounts d new_id = Some acc" unfolding ledger_inv_def by blast
    with that show ?thesis by simp
  qed simp
  from create_account_cases[OF rd] have "ledger_inv d'"
  proof (elim disjE conjE exE)
    fix e assume "d' = d" with assms show ?thesis by simp
  next
    fix e assume n: "accounts d new_id = None"
      and d': "d' = d\<lparr>accounts := (accounts d)(new_id \<mapsto> ?row)\<rparr>"
    show ?thesis unfolding d' by (rule ledger_inv_add_account[OF assms n])
  next
    assume n: "accounts d new_id = None"
      and d': "d' = d\<lparr>accounts := (accounts d)(new_id \<mapsto> ?row),
               balances := (balances d)(new_id \<mapsto>
                 upsert_row (balances d new_id) new_id (ac_currency account_data) 0 0)\<rparr>"
    let ?d1 = "d\<lparr>accounts := (accounts d)(new_id \<mapsto> ?row)\<rparr>"
    have i1: "ledger_inv ?d1" by (rule ledger_inv_add_account[OF assms n])
    have "ledger_inv (?d1\<lparr>balances := (balances ?d1)(new_id \<mapsto>
              upsert_row None new_id (ac_currency account_data) 0 0)\<rparr>)"
      by (rule ledger_inv_add_balance[OF i1, where ?acc0.0 = ?row]) (simp_all add: nb[OF n])
    then show ?thesis unfolding d' by (simp add: nb[OF n])
  qed
  with rd show ?thesis by simp
qed

lemma upsert_row_available:
  "available_balance (upsert_row ex a c x p)
     = (case ex of None \<Rightarrow> 0 | Some b \<Rightarrow> available_balance b) + x"
  "pending_balance (upsert_row ex a c x p)
     = (case ex of None \<Rightarrow> 0 | Some b \<Rightarrow> pending_balance b) + p"
  "bal_currency (upsert_row ex a c x p)
     = (case ex of None \<Rightarrow> c | Some b \<Rightarrow> bal_currency b)"
  "version (upsert_row ex a c x p)
     = (case ex of None \<Rightarrow> 0 | Some b \<Rightarrow> version b + 1)"
  by (simp_all add: upsert_row_def split: option.splits)

lemma touches_rows:
  "touches (debit_row tid did t) a \<longleftrightarrow> a = tr_source_account_id t"
  "touches (credit_row tid cid t) a \<longleftrightarrow> a = tr_destination_account_id t"
  by (auto simp: touches_def debit_row_def credit_row_def)

lemma ledger_inv_transfer_state:
  assumes inv: "ledger_inv d"
    and ne: "tr_source_account_id t \<noteq> tr_destination_account_id t"
    and sa: "accounts d (tr_source_account_id t) = Some sa" "acc_currency sa = tr_currency t"
    and da: "accounts d (tr_destination_account_id t) = Some da" "acc_currency da = tr_currency t"
    and d': "d' = d\<lparr>ledger_events := ledger_events d @ [debit_row tid did t, credit_row tid cid t],
                 balances := (balances d)
                   (tr_source_account_id t \<mapsto>
                      upsert_row (balances d (tr_source_account_id t)) (tr_source_account_id t)
                        (tr_currency t) (- tr_amount t) 0,
                    tr_destination_account_id t \<mapsto>
                      upsert_row (balances d (tr_destination_account_id t))
                        (tr_destination_account_id t) (tr_currency t) (tr_amount t) 0)\<rparr>"
  shows "ledger_inv d'"
proof -
  let ?s = "tr_source_account_id t" and ?t = "tr_destination_account_id t"
  have ev: "ledger_events d' = ledger_events d @ [debit_row tid did t, credit_row tid cid t]"
    and ac: "accounts d' = accounts d"
    by (simp_all add: d')
  have bs: "balances d' ?s = Some (upsert_row (balances d ?s) ?s (tr_currency t) (- tr_amount t) 0)"
    and bt: "balances d' ?t = Some (upsert_row (balances d ?t) ?t (tr_currency t) (tr_amount t) 0)"
    and bo: "\<And>a. a \<noteq> ?s \<Longrightarrow> a \<noteq> ?t \<Longrightarrow> balances d' a = balances d a"
    using ne by (simp_all add: d')
  have old: "\<And>a b. balances d a = Some b \<Longrightarrow>
          available_balance b = settled_credits (ledger_events d) a - settled_debits (ledger_events d) a
        \<and> pending_balance b = 0
        \<and> (\<exists>acc. accounts d a = Some acc \<and> acc_currency acc = bal_currency b)"
    using inv unfolding ledger_inv_def by blast
  have none: "\<And>a. balances d a = None \<Longrightarrow>
      settled_credits (ledger_events d) a = 0 \<and> settled_debits (ledger_events d) a = 0
      \<and> (\<forall>e \<in> set (ledger_events d). \<not> touches e a)"
  proof -
    fix a assume "balances d a = None"
    with inv have u: "\<forall>e \<in> set (ledger_events d). \<not> touches e a" by (simp add: ledger_inv_def)
    with sums_untouched[OF u] show "settled_credits (ledger_events d) a = 0 \<and> settled_debits (ledger_events d) a = 0
      \<and> (\<forall>e \<in> set (ledger_events d). \<not> touches e a)" by simp
  qed
  have p1: "available_balance b = settled_credits (ledger_events d') a - settled_debits (ledger_events d') a
        \<and> pending_balance b = 0
        \<and> (\<exists>acc. accounts d' a = Some acc \<and> acc_currency acc = bal_currency b)"
    if b: "balances d' a = Some b" for a b
  proof -
    consider (s) "a = ?s" | (t) "a = ?t" | (o) "a \<noteq> ?s" "a \<noteq> ?t" by blast
    then show ?thesis
    proof cases
      case s
      with b bs have bb: "b = upsert_row (balances d ?s) ?s (tr_currency t) (- tr_amount t) 0" by simp
      show ?thesis
      proof (cases "balances d ?s")
        case None
        with none[OF None] s ne sa show ?thesis
          by (simp add: bb ev ac sums_append_transfer upsert_row_available)
      next
        case (Some b0)
        with old[OF Some] s ne show ?thesis
          by (auto simp: bb ev ac sums_append_transfer upsert_row_available)
      qed
    next
      case t
      with b bt have bb: "b = upsert_row (balances d ?t) ?t (tr_currency t) (tr_amount t) 0" by simp
      show ?thesis
      proof (cases "balances d ?t")
        case None
        with none[OF None] t ne da show ?thesis
          by (simp add: bb ev ac sums_append_transfer upsert_row_available)
      next
        case (Some b0)
        with old[OF Some] t ne show ?thesis
          by (auto simp: bb ev ac sums_append_transfer upsert_row_available)
      qed
    next
      case o
      with b bo have "balances d a = Some b" by simp
      from old[OF this] o show ?thesis
        by (simp add: ev ac sums_append_transfer)
    qed
  qed
  have p2: "\<not> touches e a" if "balances d' a = None" "e \<in> set (ledger_events d')" for a e
  proof -
    from that(1) bs bt have o: "a \<noteq> ?s" "a \<noteq> ?t" by auto
    with that(1) bo have "balances d a = None" by simp
    from none[OF this] that(2) o show ?thesis
      by (auto simp: ev touches_rows)
  qed
  have p3: "\<exists>acc. accounts d' a = Some acc \<and> acc_currency acc = ev_currency e"
    if "e \<in> set (ledger_events d')" "touches e a" for e a
  proof -
    from that(1) consider (old) "e \<in> set (ledger_events d)" | (deb) "e = debit_row tid did t"
      | (cre) "e = credit_row tid cid t" by (auto simp: ev)
    then show ?thesis
    proof cases
      case old
      with inv that(2) show ?thesis unfolding ledger_inv_def ac by blast
    next
      case deb
      with that(2) have "a = ?s" by (simp add: touches_rows)
      with sa deb show ?thesis by (simp add: ac debit_row_def)
    next
      case cre
      with that(2) have "a = ?t" by (simp add: touches_rows)
      with da cre show ?thesis by (simp add: ac credit_row_def)
    qed
  qed
  show ?thesis unfolding ledger_inv_def using p1 p2 p3 by blast
qed

lemma ledger_inv_transfer:
  assumes "ledger_inv d"
  shows "ledger_inv (snd (transfer_funds py st fails tid did cid d t))"
proof -
  obtain r d' where rd: "transfer_funds py st fails tid did cid d t = (r, d')"
    by (cases "transfer_funds py st fails tid did cid d t")
  show ?thesis
  proof (cases "\<exists>x evs bals. r = Inr (Success x evs bals)")
    case False
    with transfer_funds_not_success[OF rd] have "d' = d" by blast
    with rd assms show ?thesis by simp
  next
    case True
    then obtain x evs bals where r: "r = Inr (Success x evs bals)" by blast
    note s = transfer_funds_success[OF rd[unfolded r]]
    from s obtain sa da where
      sa: "accounts d (tr_source_account_id t) = Some sa" "acc_currency sa = tr_currency t"
      and da: "accounts d (tr_destination_account_id t) = Some da" "acc_currency da = tr_currency t"
      by blast
    have "ledger_inv d'"
      by (rule ledger_inv_transfer_state[OF assms _ sa da, where tid = tid and did = did and cid = cid])
         (use s in simp_all)
    with rd show ?thesis by simp
  qed
qed

lemma ledger_inv_run_op: "ledger_inv d \<Longrightarrow> ledger_inv (run_op py st d op)"
  by (cases op) (simp_all add: ledger_inv_create ledger_inv_transfer)

lemma ledger_inv_foldl: "ledger_inv d \<Longrightarrow> ledger_inv (foldl (run_op py st) d ops)"
  by (induction ops arbitrary: d) (simp_all add: ledger_inv_run_op)

lemma ledger_inv_run_ops: "ledger_inv (run_ops py st ops)"
  unfolding run_ops_def by (rule ledger_inv_foldl[OF ledger_inv_empty])

lemmas ledger_eval =
  run_ops_def empty_db_def no_faults_def create_account_def AccountRepository_create_def
  get_transaction_def upsert_balance_def upsert_row_def transfer_funds_def
  validate_transfer_def AccountRepository_exists_def AccountRepository_get_by_id_def
  validate_sufficient_funds_def check_sufficient_funds_def create_transfer_events_def
  create_event_def project_events_to_balances_def add_available_def
  example_py_def example_settings_def example_overdraft_def usd_account_def
  example_transfer_def Let_def




lemma txn_amount_append_transfer:
  "txn_amount (evs @ [debit_row tid did t, credit_row tid cid t]) CREDIT T C
     = txn_amount evs CREDIT T C + (if T = tid \<and> C = tr_currency t then tr_amount t else 0)"
  "txn_amount (evs @ [debit_row tid did t, credit_row tid cid t]) DEBIT T C
     = txn_amount evs DEBIT T C + (if T = tid \<and> C = tr_currency t then tr_amount t else 0)"
  by (auto simp: txn_amount_def debit_row_def credit_row_def)

lemma create_account_events:
  "ledger_events (snd (create_account fails new_id d account_data)) = ledger_events d"
proof -
  obtain r d' where rd: "create_account fails new_id d account_data = (r, d')"
    by (cases "create_account fails new_id d account_data")
  from create_account_cases[OF rd] have "ledger_events d' = ledger_events d"
    by (elim disjE conjE exE) simp_all
  with rd show ?thesis by simp
qed

lemma conserved_transfer:
  assumes "conserved (ledger_events d)"
  shows "conserved (ledger_events (snd (transfer_funds py st fails tid did cid d t)))"
proof -
  obtain r d' where rd: "transfer_funds py st fails tid did cid d t = (r, d')"
    by (cases "transfer_funds py st fails tid did cid d t")
  show ?thesis
  proof (cases "\<exists>x evs bals. r = Inr (Success x evs bals)")
    case False
    with transfer_funds_not_success[OF rd] have "d' = d" by blast
    with rd assms show ?thesis by simp
  next
    case True
    then obtain x evs bals where r: "r = Inr (Success x evs bals)" by blast
    from transfer_funds_success[OF rd[unfolded r]]
    have "ledger_events d' = ledger_events d @ [debit_row tid did t, credit_row tid cid t]"
      by simp
    with assms rd show ?thesis
      by (simp add: conserved_def txn_amount_append_transfer)
  qed
qed

lemma conserved_run_op:
  "conserved (ledger_events d) \<Longrightarrow> conserved (ledger_events (run_op py st d op))"
  by (cases op) (simp_all add: create_account_events conserved_transfer)

lemma conserved_foldl:
  "conserved (ledger_events d) \<Longrightarrow> conserved (ledger_events (foldl (run_op py st) d ops))"
  by (induction ops arbitrary: d) (simp_all add: conserved_run_op)

lemma conserved_run_ops: "conserved (ledger_events (run_ops py st ops))"
  unfolding run_ops_def
  by (rule conserved_foldl) (simp add: conserved_def txn_amount_def empty_db_def)

text \<open>
  Claim C3 (paired events, conservation). A successful transfer, in any state the ledger
  can reach, appends exactly two events: a DEBIT with the source set and no destination and
  a CREDIT with the destination set and no source, both with the generated transaction id,
  the amount and currency of the request and status SETTLED; and in the resulting event
  log the CREDIT and DEBIT amounts of every transaction id agree per currency.
\<close>

theorem transfer_appends_balanced_pair:
  assumes "transfer_funds py st fails tid did cid (run_ops py st ops) t
             = (Inr (Success x evs bals), d')"
  shows "x = tid
       \<and> evs = [\<lparr>ev_id = did, ev_source_account_id = Some (tr_source_account_id t),
                 ev_destination_account_id = None, ev_amount = tr_amount t,
                 ev_currency = tr_currency t, ev_event_type = DEBIT,
                 ev_transaction_id = tid, ev_metadata = tr_metadata t,
                 ev_status = SETTLED\<rparr>,
                \<lparr>ev_id = cid, ev_source_account_id = None,
                 ev_destination_account_id = Some (tr_destination_account_id t),
                 ev_amount = tr_amount t, ev_currency = tr_currency t,
                 ev_event_type = CREDIT, ev_transaction_id = tid,
                 ev_metadata = tr_metadata t, ev_status = SETTLED\<rparr>]
       \<and> ledger_events d' = ledger_events (run_ops py st ops) @ evs
       \<and> conserved (ledger_events d')"
proof -
  note s = transfer_funds_success[OF assms]
  have "conserved (ledger_events (snd (transfer_funds py st fails tid did cid (run_ops py st ops) t)))"
    by (rule conserved_transfer[OF conserved_run_ops])
  with assms have c: "conserved (ledger_events d')" by simp
  from s have e: "ledger_events d' = ledger_events (run_ops py st ops) @ evs" by simp
  from s c e show ?thesis by (simp add: debit_row_def credit_row_def)
qed

lemma example_success:
  "transfer_funds example_py example_overdraft no_faults ''t1'' ''e1'' ''e2''
      (run_ops example_py example_overdraft
         [CreateAccount no_faults ''alice'' usd_account,
          CreateAccount no_faults ''float'' usd_account])
      (example_transfer ''float'' ''alice'' 500)
   = (Inr (Success ''t1''
         [debit_row ''t1'' ''e1'' (example_transfer ''float'' ''alice'' 500),
          credit_row ''t1'' ''e2'' (example_transfer ''float'' ''alice'' 500)]
         [\<lparr>bal_account_id = ''float'', bal_currency = ''USD'', available_balance = - 500,
            pending_balance = 0, version = 1\<rparr>,
          \<lparr>bal_account_id = ''alice'', bal_currency = ''USD'', available_balance = 500,
            pending_balance = 0, version = 1\<rparr>]),
      snd (transfer_funds example_py example_overdraft no_faults ''t1'' ''e1'' ''e2''
      (run_ops example_py example_overdraft
         [CreateAccount no_faults ''alice'' usd_account,
          CreateAccount no_faults ''float'' usd_account])
      (example_transfer ''float'' ''alice'' 500)))"
  by (simp add: ledger_eval debit_row_def credit_row_def)

theorem transfer_appends_balanced_pair_witness:
  "ledger_events
     (snd (transfer_funds example_py example_overdraft no_faults ''t1'' ''e1'' ''e2''
        (run_ops example_py example_overdraft
           [CreateAccount no_faults ''alice'' usd_account,
            CreateAccount no_faults ''float'' usd_account])
        (example_transfer ''float'' ''alice'' 500)))
   = [\<lparr>ev_id = ''e1'', ev_source_account_id = Some ''float'',
       ev_destination_account_id = None, ev_amount = 500, ev_currency = ''USD'',
       ev_event_type = DEBIT, ev_transaction_id = ''t1'', ev_metadata = [],
       ev_status = SETTLED\<rparr>,
      \<lparr>ev_id = ''e2'', ev_source_account_id = None,
       ev_destination_account_id = Some ''alice'', ev_amount = 500, ev_currency = ''USD'',
       ev_event_type = CREDIT, ev_transaction_id = ''t1'', ev_metadata = [],
       ev_status = SETTLED\<rparr>]
   \<and> conserved (ledger_events
     (snd (transfer_funds example_py example_overdraft no_faults ''t1'' ''e1'' ''e2''
        (run_ops example_py example_overdraft
           [CreateAccount no_faults ''alice'' usd_account,
            CreateAccount no_faults ''float'' usd_account])
        (example_transfer ''float'' ''alice'' 500))))"
proof -
  have e: "ledger_events (run_ops example_py example_overdraft
           [CreateAccount no_faults ''alice'' usd_account,
            CreateAccount no_faults ''float'' usd_account]) = []"
    by (simp add: ledger_eval)
  note t = transfer_appends_balanced_pair[OF example_success]
  from t have c: "conserved (ledger_events
     (snd (transfer_funds example_py example_overdraft no_faults ''t1'' ''e1'' ''e2''
        (run_ops example_py example_overdraft
           [CreateAccount no_faults ''alice'' usd_account,
            CreateAccount no_faults ''float'' usd_account])
        (example_transfer ''float'' ''alice'' 500))))"
    by (elim conjE)
  from t have "ledger_events
     (snd (transfer_funds example_py example_overdraft no_faults ''t1'' ''e1'' ''e2''
        (run_ops example_py example_overdraft
           [CreateAccount no_faults ''alice'' usd_account,
            CreateAccount no_faults ''float'' usd_account])
        (example_transfer ''float'' ''alice'' 500)))
     = ledger_events (run_ops example_py example_overdraft
           [CreateAccount no_faults ''alice'' usd_account,
            CreateAccount no_faults ''float'' usd_account])
       @ [debit_row ''t1'' ''e1'' (example_transfer ''float'' ''alice'' 500),
          credit_row ''t1'' ''e2'' (example_transfer ''float'' ''alice'' 500)]"
    by (elim conjE)
  then have l: "ledger_events
     (snd (transfer_funds example_py example_overdraft no_faults ''t1'' ''e1'' ''e2''
        (run_ops example_py example_overdraft
           [CreateAccount no_faults ''alice'' usd_account,
            CreateAccount no_faults ''float'' usd_account])
        (example_transfer ''float'' ''alice'' 500)))
     = [debit_row ''t1'' ''e1'' (example_transfer ''float'' ''alice'' 500),
          credit_row ''t1'' ''e2'' (example_transfer ''float'' ''alice'' 500)]"
    unfolding e by simp
  have r: "[debit_row ''t1'' ''e1'' (example_transfer ''float'' ''alice'' 500),
          credit_row ''t1'' ''e2'' (example_transfer ''float'' ''alice'' 500)]
     = [\<lparr>ev_id = ''e1'', ev_source_account_id = Some ''float'',
       ev_destination_account_id = None, ev_amount = 500, ev_currency = ''USD'',
       ev_event_type = DEBIT, ev_transaction_id = ''t1'', ev_metadata = [],
       ev_status = SETTLED\<rparr>,
      \<lparr>ev_id = ''e2'', ev_source_account_id = None,
       ev_destination_account_id = Some ''alice'', ev_amount = 500, ev_currency = ''USD'',
       ev_event_type = CREDIT, ev_transaction_id = ''t1'', ev_metadata = [],
       ev_status = SETTLED\<rparr>]"
    by (simp add: debit_row_def credit_row_def example_transfer_def)
  from c l[unfolded r] show ?thesis by (rule conjI[rotated])
qed


lemma lower_test: "py_lower ''Source and destination accounts must be different''
   = ''source and destination accounts must be different''"
  by code_simp

text \<open>
  Claim C5 at the request Alice to Alice, amount 10: the transfer is refused with the one
  error \<open>Source and destination accounts must be different\<close>, whose lower-cased text
  does not contain \<open>same\<close>.
\<close>

theorem same_account_error_text:
  "fst (transfer_funds example_py example_settings no_faults ''t1'' ''e1'' ''e2'' example_db
          (example_transfer ''alice'' ''alice'' 10))
     = Inr (Failure [''Source and destination accounts must be different''])
   \<and> \<not> sublist ''same'' (py_lower ''Source and destination accounts must be different'')"
proof -
  have "\<not> sublist ''same'' ''source and destination accounts must be different''"
    by code_simp
  then show ?thesis
    by (simp add: lower_test) (simp add: ledger_eval example_db_def)
qed

text \<open>
  Claim C6 as stated fails: when the balance upsert raises, the account row inserted
  before it stays, without a balance row.
\<close>

theorem create_account_not_atomic:
  "accounts (snd (create_account (fail_at (UpsertBalance ''alice'')) ''alice'' empty_db
                    usd_account)) ''alice'' \<noteq> None
   \<and> balances (snd (create_account (fail_at (UpsertBalance ''alice'')) ''alice'' empty_db
                    usd_account)) ''alice'' = None"
  by (simp add: ledger_eval fail_at_def)

text \<open>
  Claim C6, amended. \<open>create_account\<close> inserts the account row by a statement of its
  own and then the balance row in a separate transaction. When it returns an account, the
  account row and a balance row with zero available, zero pending and version 0 exist.
  When it raises, no balance row and no event has been written, and the account row is
  either absent as before or the newly inserted one.
\<close>

theorem create_account_rows:
  assumes run: "create_account fails new_id (run_ops py st ops) account_data = (r, d')"
  shows "(\<forall>acc. r = Inr acc \<longrightarrow>
            accounts d' new_id = Some acc
          \<and> acc_id acc = new_id \<and> acc_currency acc = ac_currency account_data
          \<and> (\<exists>b. balances d' new_id = Some b \<and> bal_currency b = ac_currency account_data
                  \<and> available_balance b = 0 \<and> pending_balance b = 0 \<and> version b = 0))
       \<and> (\<forall>e. r = Inl e \<longrightarrow>
            balances d' = balances (run_ops py st ops)
          \<and> ledger_events d' = ledger_events (run_ops py st ops)
          \<and> (accounts d' = accounts (run_ops py st ops)
              \<or> (accounts (run_ops py st ops) new_id = None
                  \<and> accounts d' = (accounts (run_ops py st ops))(new_id \<mapsto>
                       \<lparr>acc_id = new_id, acc_currency = ac_currency account_data,
                        acc_type = ac_type account_data,
                        acc_metadata = ac_metadata account_data\<rparr>))))"
proof -
  let ?d = "run_ops py st ops"
  have inv: "ledger_inv ?d" by (rule ledger_inv_run_ops)
  have nb: "balances ?d new_id = None" if "accounts ?d new_id = None"
  proof (cases "balances ?d new_id")
    case (Some b)
    with inv have "\<exists>acc. accounts ?d new_id = Some acc" unfolding ledger_inv_def by blast
    with that show ?thesis by simp
  qed simp
  from create_account_cases[OF run] show ?thesis
  proof (elim disjE conjE exE)
    fix e assume "r = Inl e" "d' = ?d"
    then show ?thesis by simp
  next
    fix e assume "accounts ?d new_id = None" "r = Inl e"
      "d' = ?d\<lparr>accounts := (accounts ?d)(new_id \<mapsto>
                 \<lparr>acc_id = new_id, acc_currency = ac_currency account_data,
                  acc_type = ac_type account_data, acc_metadata = ac_metadata account_data\<rparr>)\<rparr>"
    then show ?thesis by simp
  next
    assume n: "accounts ?d new_id = None"
      and r: "r = Inr \<lparr>acc_id = new_id, acc_currency = ac_currency account_data,
                  acc_type = ac_type account_data, acc_metadata = ac_metadata account_data\<rparr>"
      and d': "d' = ?d\<lparr>accounts := (accounts ?d)(new_id \<mapsto>
                 \<lparr>acc_id = new_id, acc_currency = ac_currency account_data,
                  acc_type = ac_type account_data, acc_metadata = ac_metadata account_data\<rparr>),
               balances := (balances ?d)(new_id \<mapsto>
                 upsert_row (balances ?d new_id) new_id (ac_currency account_data) 0 0)\<rparr>"
    show ?thesis unfolding r d' by (simp add: nb[OF n] upsert_row_def)
  qed
qed





lemma example_create_ok:
  "create_account no_faults ''alice'' (run_ops example_py example_settings []) usd_account
     = (Inr \<lparr>acc_id = ''alice'', acc_currency = ''USD'', acc_type = ''user'', acc_metadata = []\<rparr>,
        snd (create_account no_faults ''alice'' (run_ops example_py example_settings [])
               usd_account))"
  by (simp add: ledger_eval)

theorem create_account_rows_witness:
  "accounts (snd (create_account no_faults ''alice'' (run_ops example_py example_settings [])
                    usd_account)) ''alice''
     = Some \<lparr>acc_id = ''alice'', acc_currency = ''USD'', acc_type = ''user'', acc_metadata = []\<rparr>
   \<and> (\<exists>b. balances (snd (create_account no_faults ''alice''
                            (run_ops example_py example_settings []) usd_account)) ''alice''
             = Some b
          \<and> available_balance b = 0 \<and> pending_balance b = 0 \<and> version b = 0)"
  using create_account_rows[OF example_create_ok] by blast





lemma amount_similarity_raises:
  assumes "external_amount \<noteq> ledger_amount" and "external_amount + ledger_amount \<noteq> 0"
  shows "\<exists>m. calculate_amount_similarity cfg external_amount ledger_amount = Inl (TypeError m)"
  using assms by (simp add: calculate_amount_similarity_def Let_def)

lemma timestamp_similarity_monotone:
  assumes tol: "0 < timestamp_tolerance_seconds cfg"
    and le: "\<bar>t1 - l\<bar> \<le> \<bar>t2 - l\<bar>"
  shows "\<exists>s1 s2. calculate_timestamp_similarity cfg t1 l = Inr s1
               \<and> calculate_timestamp_similarity cfg t2 l = Inr s2 \<and> s2 \<le> s1"
proof -
  define T where "T = real_of_int (timestamp_tolerance_seconds cfg)"
  define d1 where "d1 = \<bar>real_of_int (t1 - l) / 1000000\<bar>"
  define d2 where "d2 = \<bar>real_of_int (t2 - l) / 1000000\<bar>"
  have T: "0 < T" using tol by (simp add: T_def)
  have "real_of_int \<bar>t1 - l\<bar> \<le> real_of_int \<bar>t2 - l\<bar>" using le by (simp only: of_int_le_iff)
  then have d: "d1 \<le> d2" "0 \<le> d1" by (simp_all add: d1_def d2_def divide_right_mono)
  define f where "f = (\<lambda>x. if x \<le> T then 1 - (x / T) * (1 / 2)
                         else if x > T * 10 then 0
                         else (1 / 2) * (1 - (x - T) / (T * 10 - T)))"
  have c1: "calculate_timestamp_similarity cfg t1 l = Inr (f d1)"
    and c2: "calculate_timestamp_similarity cfg t2 l = Inr (f d2)"
    using T by (simp_all add: calculate_timestamp_similarity_def Let_def f_def T_def d1_def d2_def)
  have lo: "1 / 2 \<le> f x" if "x \<le> T" for x
  proof -
    have "x / T \<le> 1" using that T by simp
    with that show ?thesis by (simp add: f_def)
  qed
  have hi: "f x \<le> 1 / 2" if "T < x" for x
  proof (cases "x > T * 10")
    case True
    with that T show ?thesis by (simp add: f_def)
  next
    case False
    have "0 \<le> (x - T) / (T * 10 - T)" using that T by simp
    with that False show ?thesis by (simp add: f_def)
  qed
  have "f d2 \<le> f d1"
  proof -
    consider (a) "d2 \<le> T" | (b) "d1 \<le> T" "T < d2" | (c) "T < d1" "T * 10 < d2"
      | (d) "T < d1" "d2 \<le> T * 10"
      using d by linarith
    then show ?thesis
    proof cases
      case a
      have "d1 / T \<le> d2 / T" using d T by (simp add: divide_right_mono)
      with a d show ?thesis by (simp add: f_def)
    next
      case b
      from lo[OF b(1)] hi[OF b(2)] show ?thesis by linarith
    next
      case c
      have "f d2 = 0" using c T by (simp add: f_def)
      moreover have "0 \<le> f d1"
      proof (cases "d1 > T * 10")
        case True
        with c show ?thesis by (simp add: f_def)
      next
        case False
        have "(d1 - T) / (T * 10 - T) \<le> 1" using False T by simp
        with c False show ?thesis by (simp add: f_def)
      qed
      ultimately show ?thesis by simp
    next
      case d
      have "(d1 - T) / (T * 10 - T) \<le> (d2 - T) / (T * 10 - T)"
        using \<open>d1 \<le> d2\<close> T by (intro divide_right_mono) simp_all
      note ineq = this
      have b1: "d1 \<le> T * 10" and b2: "T < d2" using d \<open>d1 \<le> d2\<close> by linarith+
      have e1: "f d1 = (1 / 2) * (1 - (d1 - T) / (T * 10 - T))"
        using d(1) b1 unfolding f_def by (simp del: times_divide_eq_left)
      have e2: "f d2 = (1 / 2) * (1 - (d2 - T) / (T * 10 - T))"
        using d(2) b2 unfolding f_def by (simp del: times_divide_eq_left)
      show ?thesis unfolding e1 e2
        by (intro mult_left_mono diff_left_mono ineq) simp
    qed
  qed
  with c1 c2 show ?thesis by blast
qed

text \<open>
  Claim C7 at an external amount of 100.05 against a ledger amount of 100.00, same
  currency and timestamp, default settings: \<open>_calculate_match_score\<close> returns no score;
  the amount similarity raises \<open>TypeError\<close> on dividing a Decimal by a float.
\<close>

theorem fuzzy_score_raises:
  "calculate_match_score example_py default_recon_settings
     (example_external (10005 / 100)) (example_ledger_txn ''l1'' 100)
   = Inl (TypeError ''unsupported operand type(s) for /: decimal.Decimal and float'')"
  by (simp add: calculate_match_score_def calculate_amount_similarity_def
        default_recon_settings_def example_external_def example_ledger_txn_def Let_def
        of_rat_divide)

text \<open>
  Claim C8 for the amount similarity, at ledger amount 100 and default settings: both for
  an external amount within the tolerance (100.05) and for one outside it (200) the
  function raises \<open>TypeError\<close> instead of returning a similarity, so there are no
  two values to compare. (The timestamp half of the claim holds, see
  \<open>timestamp_similarity_monotone\<close>.)
\<close>

theorem amount_similarity_raises_on_both_branches:
  "calculate_amount_similarity default_recon_settings (10005 / 100) 100
     = Inl (TypeError ''unsupported operand type(s) for /: decimal.Decimal and float'')
   \<and> calculate_amount_similarity default_recon_settings 200 100
     = Inl (TypeError ''unsupported operand type(s) for -: float and decimal.Decimal'')"
  by (simp add: calculate_amount_similarity_def default_recon_settings_def Let_def
        of_rat_divide)

section \<open>Properties of the reconciliation engine\<close>







end
